theory Spec2Isabelle
  imports Main
begin

section \<open>Python values, errors and results\<close>

text \<open>
  A Python \<open>str\<close> is modelled by the list of its UTF-8 bytes, and \<open>bytes\<close> /
  \<open>bytearray\<close> by the list of its bytes, so \<open>s.encode('utf-8')\<close>,
  \<open>bytearray(s, 'utf-8')\<close> and \<open>b.decode('utf-8')\<close> are the identity.
\<close>

type_synonym bytes = "char list"

datatype error =
    ValueError string
  | KeyError string
  | IndexError
  | TypeError
  | NotImplementedError string
  | ForceChangePasswordException string
  | MFATokenRequiredException string
  | TokenVerificationException string
  | JWTError string
  | ZeroDivisionError
  | ClientError string
  | BotoCoreError string
  | LibraryError string

text \<open>The argument of \<open>pad_hex\<close> is an integer or a string.\<close>

datatype py_val = PyInt int | PyStr string

definition bind :: "error + 'a \<Rightarrow> ('a \<Rightarrow> error + 'b) \<Rightarrow> error + 'b" where
  "bind m f = (case m of Inl e \<Rightarrow> Inl e | Inr v \<Rightarrow> f v)"

section \<open>Integers and hexadecimal strings (aws\_srp.py)\<close>

text \<open>
  Library functions the module calls and whose code is not part of the repository are
  parameters of the model: the SHA-256 digest, HMAC-SHA256, base64, the parts of
  \<open>int(s, 16)\<close> and \<open>bytearray.fromhex(s)\<close> that deal with signs, prefixes,
  underscores and white space, three-argument \<open>pow\<close> with a negative exponent, and
  \<open>boto3.client('cognito-idp', region_name=region)\<close>, which returns a client or raises
  an exception of \<open>botocore\<close> with a message (\<open>NoRegionError\<close> when no region is
  configured).
\<close>

record lib =
  sha256 :: "bytes \<Rightarrow> bytes"
  hmac_sha256 :: "bytes \<Rightarrow> bytes \<Rightarrow> bytes"
  b64encode :: "bytes \<Rightarrow> string"
  b64decode :: "string \<Rightarrow> error + bytes"
  int16_other :: "string \<Rightarrow> error + int"
  fromhex_other :: "string \<Rightarrow> error + bytes"
  pow_neg :: "int \<Rightarrow> int \<Rightarrow> int \<Rightarrow> error + int"
  boto3_client :: "string option \<Rightarrow> string + unit"

definition hex_digit :: "nat \<Rightarrow> char" where
  "hex_digit d = ''0123456789abcdef'' ! d"

text \<open>\<open>'%x' % n\<close> for a natural number: lowercase digits, most significant first.\<close>

function to_hex :: "nat \<Rightarrow> string" where
  "to_hex n = (if n < 16 then [hex_digit n] else to_hex (n div 16) @ [hex_digit (n mod 16)])"
  by pat_completeness auto
termination
  by (relation "measure (\<lambda>n. n)") auto

declare to_hex.simps [simp del]

text \<open>\<open>long_to_hex\<close>: \<open>'%x' % long_num\<close>; a negative number prints with a minus sign.\<close>

definition long_to_hex :: "int \<Rightarrow> string" where
  "long_to_hex long_num =
     (if long_num < 0 then CHR ''-'' # to_hex (nat (- long_num)) else to_hex (nat long_num))"

text \<open>The value of a hexadecimal digit, of either case.\<close>

definition hex_val :: "char \<Rightarrow> nat option" where
  "hex_val c =
     (let n = (of_char c :: nat)
      in if 48 \<le> n \<and> n \<le> 57 then Some (n - 48)
         else if 97 \<le> n \<and> n \<le> 102 then Some (n - 87)
         else if 65 \<le> n \<and> n \<le> 70 then Some (n - 55)
         else None)"

definition is_hexdigit :: "char \<Rightarrow> bool" where
  "is_hexdigit c = (hex_val c \<noteq> None)"

definition hex_value :: "string \<Rightarrow> nat" where
  "hex_value s = foldl (\<lambda>acc c. 16 * acc + the (hex_val c)) 0 s"

text \<open>
  \<open>hex_to_long\<close>: \<open>int(hex_string, 16)\<close>. A non-empty string of hexadecimal digits has
  its value, the empty string raises \<open>ValueError\<close>; every other string is left to the
  library.
\<close>

definition hex_to_long :: "lib \<Rightarrow> string \<Rightarrow> error + int" where
  "hex_to_long L hex_string =
     (if hex_string = [] then Inl (ValueError ''invalid literal for int() with base 16'')
      else if list_all is_hexdigit hex_string then Inr (int (hex_value hex_string))
      else int16_other L hex_string)"

text \<open>
  \<open>bytearray.fromhex\<close>: two hexadecimal digits per byte; an odd number of digits raises
  \<open>ValueError\<close>; a string with other characters is left to the library.
\<close>

fun hex_pairs :: "string \<Rightarrow> bytes" where
  "hex_pairs (a # b # r) = char_of (16 * the (hex_val a) + the (hex_val b)) # hex_pairs r"
| "hex_pairs _ = []"

definition fromhex :: "lib \<Rightarrow> string \<Rightarrow> error + bytes" where
  "fromhex L s =
     (if list_all is_hexdigit s
      then (if even (length s) then Inr (hex_pairs s)
            else Inl (ValueError ''non-hexadecimal number found in fromhex() arg''))
      else fromhex_other L s)"

text \<open>\<open>binascii.hexlify\<close> and \<open>hexdigest\<close>: two lowercase digits per byte.\<close>

definition hexlify :: "bytes \<Rightarrow> string" where
  "hexlify bs = concat (map (\<lambda>b. [hex_digit (of_char b div 16), hex_digit (of_char b mod 16)]) bs)"

text \<open>
  \<open>pad_hex\<close>. \<open>hash_str[0]\<close> on the empty string raises \<open>IndexError\<close>; the length of
  a string counts its characters, which are bytes for the hexadecimal strings this
  function is applied to.
\<close>

definition pad_hex :: "py_val \<Rightarrow> error + string" where
  "pad_hex long_int =
     (let hash_str = (case long_int of PyInt n \<Rightarrow> long_to_hex n | PyStr s \<Rightarrow> s)
      in if length hash_str mod 2 = 1 then Inr (CHR ''0'' # hash_str)
         else (case hash_str of
                 [] \<Rightarrow> Inl IndexError
               | c # _ \<Rightarrow> if c \<in> set ''89ABCDEFabcdef'' then Inr (''00'' @ hash_str)
                          else Inr hash_str))"

section \<open>Module constants and hashing (aws\_srp.py)\<close>

definition n_hex :: string where
  "n_hex =
     ''FFFFFFFFFFFFFFFFC90FDAA22168C234C4C6628B80DC1CD1'' @
     ''29024E088A67CC74020BBEA63B139B22514A08798E3404DD'' @
     ''EF9519B3CD3A431B302B0A6DF25F14374FE1356D6D51C245'' @
     ''E485B576625E7EC6F44C42E9A637ED6B0BFF5CB6F406B7ED'' @
     ''EE386BFB5A899FA5AE9F24117C4B1FE649286651ECE45B3D'' @
     ''C2007CB8A163BF0598DA48361C55D39A69163FA8FD24CF5F'' @
     ''83655D23DCA3AD961C62F356208552BB9ED529077096966D'' @
     ''670C354E4ABC9804F1746C08CA18217C32905E462E36CE3B'' @
     ''E39E772C180E86039B2783A2EC07A28FB5C55DF06F4C52C9'' @
     ''DE2BCBF6955817183995497CEA956AE515D2261898FA0510'' @
     ''15728E5A8AAAC42DAD33170D04507A33A85521ABDF1CBA64'' @
     ''ECFB850458DBEF0A8AEA71575D060C7DB3970F85A6E1E4C7'' @
     ''ABF5AE8CDB0933D71E8C94E04A25619DCEE3D2261AD2EE6B'' @
     ''F12FFA06D98A0864D87602733EC86A64521F2B18177B200C'' @
     ''BBE117577A615D6C770988C0BAD946E208E24FA074E5AB31'' @
     ''43DB5BFCE0FD108E4B82D120A93AD2CAFFFFFFFFFFFFFFFF''"

definition g_hex :: string where
  "g_hex = ''2''"

definition info_bits :: bytes where
  "info_bits = ''Caldera Derived Key''"

text \<open>\<open>hash_sha256\<close>: the hexadecimal digest, padded on the left to 64 characters.\<close>

definition hash_sha256 :: "lib \<Rightarrow> bytes \<Rightarrow> string" where
  "hash_sha256 L buf =
     (let a = hexlify (sha256 L buf) in replicate (64 - length a) CHR ''0'' @ a)"

definition hex_hash :: "lib \<Rightarrow> string \<Rightarrow> error + string" where
  "hex_hash L hex_string = bind (fromhex L hex_string) (\<lambda>buf. Inr (hash_sha256 L buf))"

text \<open>\<open>get_random\<close>; the argument is the result of \<open>os.urandom(nbytes)\<close>.\<close>

definition get_random :: "lib \<Rightarrow> bytes \<Rightarrow> error + int" where
  "get_random L urandom = hex_to_long L (hexlify urandom)"

text \<open>
  \<open>compute_hkdf\<close>; \<open>hmac_sha256 L key msg\<close> is \<open>hmac.new(key, msg, hashlib.sha256).digest()\<close>.
\<close>

definition compute_hkdf :: "lib \<Rightarrow> bytes \<Rightarrow> bytes \<Rightarrow> bytes" where
  "compute_hkdf L ikm salt =
     (let prk = hmac_sha256 L salt ikm;
          info_bits_update = info_bits @ [CHR 0x01];
          hmac_hash = hmac_sha256 L prk info_bits_update
      in take 16 hmac_hash)"

definition calculate_u :: "lib \<Rightarrow> int \<Rightarrow> int \<Rightarrow> error + int" where
  "calculate_u L big_a big_b =
     bind (pad_hex (PyInt big_a)) (\<lambda>pa.
     bind (pad_hex (PyInt big_b)) (\<lambda>pb.
     bind (hex_hash L (pa @ pb)) (\<lambda>u_hex_hash.
     hex_to_long L u_hex_hash)))"

text \<open>
  Python's \<open>pow(base, exp, mod)\<close> and \<open>a % b\<close> on integers: the result of both has
  the sign of the modulus, as \<open>mod\<close> on \<open>int\<close> has; a zero modulus raises.
\<close>

definition py_pow :: "lib \<Rightarrow> int \<Rightarrow> int \<Rightarrow> int \<Rightarrow> error + int" where
  "py_pow L b e m =
     (if m = 0 then Inl (ValueError ''pow() 3rd argument cannot be 0'')
      else if e < 0 then pow_neg L b e m
      else Inr (b ^ nat e mod m))"

definition py_mod :: "int \<Rightarrow> int \<Rightarrow> error + int" where
  "py_mod a b = (if b = 0 then Inl ZeroDivisionError else Inr (a mod b))"

text \<open>\<open>s.split(sep)\<close> for a one-character separator, and \<open>xs[i]\<close> for \<open>i \<ge> 0\<close>.\<close>

fun split_on :: "char \<Rightarrow> string \<Rightarrow> string list" where
  "split_on sep [] = [[]]"
| "split_on sep (c # cs) =
     (if c = sep then [] # split_on sep cs
      else (case split_on sep cs of [] \<Rightarrow> [[c]] | x # xs \<Rightarrow> (c # x) # xs))"

definition getindex :: "'a list \<Rightarrow> nat \<Rightarrow> error + 'a" where
  "getindex xs i = (if i < length xs then Inr (xs ! i) else Inl IndexError)"

text \<open>\<open>d[key]\<close> on a dictionary with string keys.\<close>

definition getitem :: "(string \<rightharpoonup> 'v) \<Rightarrow> string \<Rightarrow> error + 'v" where
  "getitem d key = (case d key of None \<Rightarrow> Inl (KeyError key) | Some v \<Rightarrow> Inr v)"

text \<open>\<open>'%s'\<close> of an optional string: \<open>None\<close> prints as \<open>None\<close>.\<close>

definition str_of :: "string option \<Rightarrow> string" where
  "str_of v = (case v of None \<Rightarrow> ''None'' | Some s \<Rightarrow> s)"

text \<open>
  \<open>re.sub(r" 0(\d) ", r" \1 ", s)\<close>: matches are found from left to right and do not
  overlap; the search resumes after the blank that ends a match.
\<close>

definition is_digit :: "char \<Rightarrow> bool" where
  "is_digit c = (48 \<le> (of_char c :: nat) \<and> (of_char c :: nat) \<le> 57)"

fun strip_day_zero :: "string \<Rightarrow> string" where
  "strip_day_zero (a # b # c # d # r) =
     (if a = CHR '' '' \<and> b = CHR ''0'' \<and> is_digit c \<and> d = CHR '' ''
      then a # c # d # strip_day_zero r
      else a # strip_day_zero (b # c # d # r))"
| "strip_day_zero s = s"

section \<open>The SRP client (class AWSSRP)\<close>

record awssrp =
  username :: string
  password :: string
  pool_id :: string
  client_id :: string
  client_secret :: "string option"
  device_key :: "string option"
  device_group_key :: "string option"
  device_password :: "string option"
  big_n :: int
  g :: int
  k :: int
  small_a_value :: int
  large_a_value :: int

definition NEW_PASSWORD_REQUIRED_CHALLENGE :: string where
  "NEW_PASSWORD_REQUIRED_CHALLENGE = ''NEW_PASSWORD_REQUIRED''"

definition PASSWORD_VERIFIER_CHALLENGE :: string where
  "PASSWORD_VERIFIER_CHALLENGE = ''PASSWORD_VERIFIER''"

definition DEVICE_SRP_AUTH :: string where
  "DEVICE_SRP_AUTH = ''DEVICE_SRP_AUTH''"

definition SOFTWARE_TOKEN_MFA_CHALLENGE :: string where
  "SOFTWARE_TOKEN_MFA_CHALLENGE = ''SOFTWARE_TOKEN_MFA''"

text \<open>\<open>generate_random_small_a\<close>; \<open>urandom\<close> is the result of \<open>os.urandom(128)\<close>.\<close>

definition generate_random_small_a :: "lib \<Rightarrow> awssrp \<Rightarrow> bytes \<Rightarrow> error + int" where
  "generate_random_small_a L self urandom =
     bind (get_random L urandom) (\<lambda>random_long_int.
     py_mod random_long_int (big_n self))"

definition calculate_a :: "lib \<Rightarrow> awssrp \<Rightarrow> error + int" where
  "calculate_a L self =
     bind (py_pow L (g self) (small_a_value self) (big_n self)) (\<lambda>big_a.
     bind (py_mod big_a (big_n self)) (\<lambda>r.
     if r = 0 then Inl (ValueError ''Safety check for A failed'') else Inr big_a))"

text \<open>
  \<open>__init__\<close>. \<open>client_given\<close> says whether a client was passed; the client itself is
  the environment of the functions that talk to the service. When none was passed,
  line 127 creates one with \<open>boto3.client('cognito-idp', region_name=pool_region)\<close>,
  which may raise, before any SRP value is computed. The two attributes that are
  assigned last hold 0 until they are assigned; nothing reads them before.
\<close>

definition awssrp_init ::
  "lib \<Rightarrow> string \<Rightarrow> string \<Rightarrow> string \<Rightarrow> string \<Rightarrow> string option \<Rightarrow> bool \<Rightarrow> string option \<Rightarrow>
   string option \<Rightarrow> string option \<Rightarrow> string option \<Rightarrow> bytes \<Rightarrow> error + awssrp" where
  "awssrp_init L username' password' pool_id' client_id' pool_region client_given client_secret'
     device_key' device_password' device_group_key' urandom =
     (if pool_region \<noteq> None \<and> client_given
      then Inl (ValueError ''pool_region and client should not both be specified (region should be passed to the boto3 client instead)'')
      else
        bind (if client_given then Inr ()
              else (case boto3_client L pool_region of
                      Inl msg \<Rightarrow> Inl (BotoCoreError msg)
                    | Inr created \<Rightarrow> Inr ())) (\<lambda>client'.
        bind (hex_to_long L n_hex) (\<lambda>big_n'.
        bind (hex_to_long L g_hex) (\<lambda>g'.
        bind (hex_hash L (''00'' @ n_hex @ ''0'' @ g_hex)) (\<lambda>k_hash.
        bind (hex_to_long L k_hash) (\<lambda>k'.
        let self = \<lparr> username = username', password = password', pool_id = pool_id',
                      client_id = client_id', client_secret = client_secret',
                      device_key = device_key', device_group_key = device_group_key',
                      device_password = device_password',
                      big_n = big_n', g = g', k = k',
                      small_a_value = 0, large_a_value = 0 \<rparr>
        in bind (generate_random_small_a L self urandom) (\<lambda>a.
           let self = self\<lparr>small_a_value := a\<rparr>
           in bind (calculate_a L self) (\<lambda>big_a.
              Inr (self\<lparr>large_a_value := big_a\<rparr>)))))))))"

text \<open>
  Lines 171 to 173 of \<open>get_password_authentication_key\<close>, which are lines 360 to 362 of
  \<open>get_device_authentication_key\<close>: the value \<open>s_value\<close>.
\<close>

definition srp_s_value :: "lib \<Rightarrow> awssrp \<Rightarrow> int \<Rightarrow> int \<Rightarrow> int \<Rightarrow> error + int" where
  "srp_s_value L self server_b_value u_value x_value =
     bind (py_pow L (g self) x_value (big_n self)) (\<lambda>g_mod_pow_xn.
     let int_value2 = server_b_value - k self * g_mod_pow_xn
     in py_pow L int_value2 (small_a_value self + u_value * x_value) (big_n self))"

text \<open>
  Lines 170 to 176 of \<open>get_password_authentication_key\<close>, which are lines 359 to 365 of
  \<open>get_device_authentication_key\<close>: from the hash of the full password to the key.
\<close>

definition srp_key :: "lib \<Rightarrow> awssrp \<Rightarrow> int \<Rightarrow> int \<Rightarrow> string \<Rightarrow> string \<Rightarrow> error + bytes" where
  "srp_key L self u_value server_b_value salt username_password_hash =
     bind (pad_hex (PyStr salt)) (\<lambda>padded_salt.
     bind (hex_hash L (padded_salt @ username_password_hash)) (\<lambda>x_hash.
     bind (hex_to_long L x_hash) (\<lambda>x_value.
     bind (srp_s_value L self server_b_value u_value x_value) (\<lambda>s_value.
     bind (pad_hex (PyInt s_value)) (\<lambda>padded_s.
     bind (fromhex L padded_s) (\<lambda>ikm.
     bind (pad_hex (PyStr (long_to_hex u_value))) (\<lambda>padded_u.
     bind (fromhex L padded_u) (\<lambda>salt_bytes.
     Inr (compute_hkdf L ikm salt_bytes)))))))))"

text \<open>
  Line 167 of \<open>get_password_authentication_key\<close>, the string that is hashed:
  \<open>'%s%s:%s' % (self.pool_id.split('_')[1], username, password)\<close>.
\<close>

definition username_password :: "awssrp \<Rightarrow> string \<Rightarrow> string \<Rightarrow> error + string" where
  "username_password self username' password' =
     bind (getindex (split_on CHR ''_'' (pool_id self)) 1) (\<lambda>pool_name.
     Inr (pool_name @ username' @ '':'' @ password'))"

definition get_password_authentication_key ::
  "lib \<Rightarrow> awssrp \<Rightarrow> string \<Rightarrow> string \<Rightarrow> int \<Rightarrow> string \<Rightarrow> error + bytes" where
  "get_password_authentication_key L self username' password' server_b_value salt =
     bind (calculate_u L (large_a_value self) server_b_value) (\<lambda>u_value.
     if u_value = 0 then Inl (ValueError ''U cannot be zero.'')
     else
       bind (username_password self username' password') (\<lambda>username_password'.
       let username_password_hash = hash_sha256 L username_password'
       in srp_key L self u_value server_b_value salt username_password_hash))"

definition get_secret_hash :: "lib \<Rightarrow> string \<Rightarrow> string \<Rightarrow> string \<Rightarrow> string" where
  "get_secret_hash L username' client_id' client_secret' =
     (let message = username' @ client_id'
      in b64encode L (hmac_sha256 L client_secret' message))"

definition get_auth_params :: "lib \<Rightarrow> awssrp \<Rightarrow> (string \<rightharpoonup> string)" where
  "get_auth_params L self =
     (let auth_params = [''USERNAME'' \<mapsto> username self,
                         ''SRP_A'' \<mapsto> long_to_hex (large_a_value self)];
          auth_params = (case client_secret self of
                           None \<Rightarrow> auth_params
                         | Some secret \<Rightarrow>
                             auth_params(''SECRET_HASH'' \<mapsto>
                               get_secret_hash L (username self) (client_id self) secret));
          auth_params = (case device_key self of
                           None \<Rightarrow> auth_params
                         | Some dk \<Rightarrow> auth_params(''DEVICE_KEY'' \<mapsto> dk))
      in auth_params)"

text \<open>
  \<open>process_challenge\<close>; \<open>now\<close> is
  \<open>datetime.datetime.utcnow().strftime("%a %b %d %H:%M:%S UTC %Y")\<close>.
\<close>

definition process_challenge ::
  "lib \<Rightarrow> awssrp \<Rightarrow> string \<Rightarrow> (string \<rightharpoonup> string) \<Rightarrow> error + (string \<rightharpoonup> string)" where
  "process_challenge L self now challenge_parameters =
     bind (getitem challenge_parameters ''USER_ID_FOR_SRP'') (\<lambda>user_id_for_srp.
     bind (getitem challenge_parameters ''SALT'') (\<lambda>salt_hex.
     bind (getitem challenge_parameters ''SRP_B'') (\<lambda>srp_b_hex.
     bind (getitem challenge_parameters ''SECRET_BLOCK'') (\<lambda>secret_block_b64.
     let timestamp = strip_day_zero now
     in bind (hex_to_long L srp_b_hex) (\<lambda>server_b_value.
        bind (get_password_authentication_key L self user_id_for_srp (password self)
                server_b_value salt_hex) (\<lambda>hkdf.
        bind (b64decode L secret_block_b64) (\<lambda>secret_block_bytes.
        bind (getindex (split_on CHR ''_'' (pool_id self)) 1) (\<lambda>pool_name.
        let msg = pool_name @ user_id_for_srp @ secret_block_bytes @ timestamp;
            signature_string = b64encode L (hmac_sha256 L hkdf msg);
            response = [''TIMESTAMP'' \<mapsto> timestamp,
                        ''USERNAME'' \<mapsto> user_id_for_srp,
                        ''PASSWORD_CLAIM_SECRET_BLOCK'' \<mapsto> secret_block_b64,
                        ''PASSWORD_CLAIM_SIGNATURE'' \<mapsto> signature_string];
            response = (case client_secret self of
                          None \<Rightarrow> response
                        | Some secret \<Rightarrow>
                            response(''SECRET_HASH'' \<mapsto>
                              get_secret_hash L (username self) (client_id self) secret));
            response = (case device_key self of
                          None \<Rightarrow> response
                        | Some dk \<Rightarrow> response(''DEVICE_KEY'' \<mapsto> dk))
        in Inr response))))))))"

definition get_device_authentication_key ::
  "lib \<Rightarrow> awssrp \<Rightarrow> string option \<Rightarrow> string option \<Rightarrow> string option \<Rightarrow> int \<Rightarrow> string \<Rightarrow>
   error + bytes" where
  "get_device_authentication_key L self device_group_key' device_key' device_password'
     server_b_value salt =
     bind (calculate_u L (large_a_value self) server_b_value) (\<lambda>u_value.
     if u_value = 0 then Inl (ValueError ''U cannot be zero.'')
     else
       let username_password =
             str_of device_group_key' @ str_of device_key' @ '':'' @ str_of device_password';
           username_password_hash = hash_sha256 L username_password
       in srp_key L self u_value server_b_value salt username_password_hash)"

text \<open>
  \<open>process_device_challenge\<close>. \<open>bytearray(None, 'utf-8')\<close> raises \<open>TypeError\<close> when
  the device group key or the device key is \<open>None\<close>.
\<close>

definition process_device_challenge ::
  "lib \<Rightarrow> awssrp \<Rightarrow> string \<Rightarrow> (string \<rightharpoonup> string) \<Rightarrow> error + (string \<rightharpoonup> string)" where
  "process_device_challenge L self now challenge_parameters =
     bind (getitem challenge_parameters ''USERNAME'') (\<lambda>username'.
     bind (getitem challenge_parameters ''SALT'') (\<lambda>salt_hex.
     bind (getitem challenge_parameters ''SRP_B'') (\<lambda>srp_b_hex.
     bind (getitem challenge_parameters ''SECRET_BLOCK'') (\<lambda>secret_block_b64.
     let timestamp = strip_day_zero now
     in bind (hex_to_long L srp_b_hex) (\<lambda>server_b_value.
        bind (get_device_authentication_key L self (device_group_key self) (device_key self)
                (device_password self) server_b_value salt_hex) (\<lambda>hkdf.
        bind (b64decode L secret_block_b64) (\<lambda>secret_block_bytes.
        (case (device_group_key self, device_key self) of
           (Some dgk, Some dk) \<Rightarrow>
             let msg = dgk @ dk @ secret_block_bytes @ timestamp;
                 signature_string = b64encode L (hmac_sha256 L hkdf msg);
                 response = [''TIMESTAMP'' \<mapsto> timestamp,
                             ''USERNAME'' \<mapsto> username',
                             ''PASSWORD_CLAIM_SECRET_BLOCK'' \<mapsto> secret_block_b64,
                             ''PASSWORD_CLAIM_SIGNATURE'' \<mapsto> signature_string,
                             ''DEVICE_KEY'' \<mapsto> dk];
                 response = (case client_secret self of
                               None \<Rightarrow> response
                             | Some secret \<Rightarrow>
                                 response(''SECRET_HASH'' \<mapsto>
                                   get_secret_hash L username' (client_id self) secret))
             in Inr response
         | _ \<Rightarrow> Inl TypeError))))))))"

section \<open>The service client and the authentication flows (class AWSSRP)\<close>

text \<open>
  The responses of \<open>initiate_auth\<close> and \<open>respond_to_auth_challenge\<close>; a key that the
  dictionary does not have is \<open>None\<close>.
\<close>

record new_device_metadata =
  DeviceKey :: "string option"
  DeviceGroupKey :: "string option"

record authentication_result =
  IdToken :: "string option"
  AccessToken :: "string option"
  RefreshToken :: "string option"
  TokenType :: "string option"
  NewDeviceMetadata :: "new_device_metadata option"

record response =
  ChallengeName :: "string option"
  ChallengeParameters :: "(string \<rightharpoonup> string) option"
  Session :: "string option"
  AuthenticationResult :: "authentication_result option"

text \<open>
  The calls the code makes on the service client, with their keyword arguments in the
  order given here:
  \<^item> \<open>InitiateAuth AuthFlow AuthParameters ClientId\<close>;
  \<^item> \<open>RespondToAuthChallenge ClientId ChallengeName ChallengeResponses Session\<close>, where
    \<open>Session\<close> is \<open>None\<close> when the argument is not passed;
  \<^item> \<open>ConfirmDevice AccessToken DeviceKey DeviceSecretVerifierConfig DeviceName\<close>;
  \<^item> \<open>UpdateDeviceStatus AccessToken DeviceKey DeviceRememberedStatus\<close>.
\<close>

datatype request =
    InitiateAuth string "string \<rightharpoonup> string" string
  | RespondToAuthChallenge string string "string \<rightharpoonup> string" "string option"
  | ConfirmDevice "string option" "string option" "string \<rightharpoonup> string" string
  | UpdateDeviceStatus "string option" "string option" string

text \<open>
  The environment: the service answers a request given all the requests sent so far
  (the last one is the request it answers), with a response or with the message of the
  exception the client raises; \<open>utcnow\<close> is the formatted clock reading
  \<open>datetime.datetime.utcnow().strftime("%a %b %d %H:%M:%S UTC %Y")\<close> after the given
  requests.
\<close>

record env =
  client :: "request list \<Rightarrow> string + response"
  utcnow :: "request list \<Rightarrow> string"

text \<open>
  A computation that may raise and that changes a state: the state it leaves is kept
  when it raises, as the attributes of a Python object are.
\<close>

definition sbind ::
  "(error + 'a) \<times> 's \<Rightarrow> ('a \<Rightarrow> 's \<Rightarrow> (error + 'b) \<times> 's) \<Rightarrow> (error + 'b) \<times> 's" where
  "sbind m f = (case m of (Inl e, s) \<Rightarrow> (Inl e, s) | (Inr v, s) \<Rightarrow> f v s)"

definition call :: "env \<Rightarrow> request \<Rightarrow> request list \<Rightarrow> (error + response) \<times> request list" where
  "call E req sent =
     (case client E (sent @ [req]) of
        Inl msg \<Rightarrow> (Inl (ClientError msg), sent @ [req])
      | Inr r \<Rightarrow> (Inr r, sent @ [req]))"

text \<open>\<open>d[key]\<close> on a response.\<close>

definition require :: "string \<Rightarrow> 'a option \<Rightarrow> error + 'a" where
  "require key v = (case v of None \<Rightarrow> Inl (KeyError key) | Some x \<Rightarrow> Inr x)"

definition authenticate_device ::
  "lib \<Rightarrow> env \<Rightarrow> awssrp \<Rightarrow> response \<Rightarrow> request list \<Rightarrow> (error + response) \<times> request list" where
  "authenticate_device L E self response sent =
     (let auth_params = get_auth_params L self
      in sbind (call E (RespondToAuthChallenge (client_id self) ''DEVICE_SRP_AUTH'' auth_params None) sent)
           (\<lambda>response_auth sent.
         sbind (require ''ChallengeParameters'' (ChallengeParameters response_auth), sent)
           (\<lambda>challenge_parameters sent.
         sbind (process_device_challenge L self (utcnow E sent) challenge_parameters, sent)
           (\<lambda>cr sent.
         call E (RespondToAuthChallenge (client_id self) ''DEVICE_PASSWORD_VERIFIER'' cr None) sent))))"

definition authenticate_user ::
  "lib \<Rightarrow> env \<Rightarrow> awssrp \<Rightarrow> request list \<Rightarrow> (error + response) \<times> request list" where
  "authenticate_user L E self sent =
     (let auth_params = get_auth_params L self
      in sbind (call E (InitiateAuth ''USER_SRP_AUTH'' auth_params (client_id self)) sent)
           (\<lambda>response sent.
         sbind (require ''ChallengeName'' (ChallengeName response), sent)
           (\<lambda>challenge_name sent.
         if challenge_name = PASSWORD_VERIFIER_CHALLENGE
         then
           sbind (require ''ChallengeParameters'' (ChallengeParameters response), sent)
             (\<lambda>challenge_parameters sent.
           sbind (process_challenge L self (utcnow E sent) challenge_parameters, sent)
             (\<lambda>challenge_response sent.
           sbind (call E (RespondToAuthChallenge (client_id self) PASSWORD_VERIFIER_CHALLENGE
                            challenge_response None) sent)
             (\<lambda>tokens sent.
           if ChallengeName tokens = Some DEVICE_SRP_AUTH
           then authenticate_device L E self tokens sent
           else if ChallengeName tokens = Some NEW_PASSWORD_REQUIRED_CHALLENGE
           then (Inl (ForceChangePasswordException ''Change password before authenticating''), sent)
           else if ChallengeName tokens = Some SOFTWARE_TOKEN_MFA_CHALLENGE
           then (Inl (MFATokenRequiredException ''Software MFA Token required to authenticate''), sent)
           else (Inr tokens, sent))))
         else (Inl (NotImplementedError (''The '' @ challenge_name @ '' challenge is not supported'')),
               sent))))"

definition authenticate_user_with_mfa_token ::
  "lib \<Rightarrow> env \<Rightarrow> awssrp \<Rightarrow> string \<Rightarrow> request list \<Rightarrow> (error + response) \<times> request list" where
  "authenticate_user_with_mfa_token L E self mfaToken sent =
     (let auth_params = get_auth_params L self
      in sbind (call E (InitiateAuth ''USER_SRP_AUTH'' auth_params (client_id self)) sent)
           (\<lambda>response sent.
         sbind (require ''ChallengeParameters'' (ChallengeParameters response), sent)
           (\<lambda>challenge_parameters sent.
         sbind (getitem challenge_parameters ''USERNAME'', sent)
           (\<lambda>userSub sent.
         sbind (require ''ChallengeName'' (ChallengeName response), sent)
           (\<lambda>challenge_name sent.
         if challenge_name = PASSWORD_VERIFIER_CHALLENGE
         then
           sbind (process_challenge L self (utcnow E sent) challenge_parameters, sent)
             (\<lambda>challenge_response sent.
           sbind (call E (RespondToAuthChallenge (client_id self) PASSWORD_VERIFIER_CHALLENGE
                            challenge_response None) sent)
             (\<lambda>tokens sent.
           if ChallengeName tokens = Some SOFTWARE_TOKEN_MFA_CHALLENGE
           then
             (let challenge_response = [''USERNAME'' \<mapsto> userSub,
                                        ''SOFTWARE_TOKEN_MFA_CODE'' \<mapsto> mfaToken]
              in sbind (require ''Session'' (Session tokens), sent)
                   (\<lambda>session sent.
                 call E (RespondToAuthChallenge (client_id self) SOFTWARE_TOKEN_MFA_CHALLENGE
                           challenge_response (Some session)) sent))
           else (Inr tokens, sent)))
         else (Inl (NotImplementedError (''The '' @ challenge_name @ '' challenge is not supported'')),
               sent))))))"

definition set_new_password_challenge ::
  "lib \<Rightarrow> env \<Rightarrow> awssrp \<Rightarrow> string \<Rightarrow> request list \<Rightarrow> (error + response) \<times> request list" where
  "set_new_password_challenge L E self new_password sent =
     (let auth_params = get_auth_params L self
      in sbind (call E (InitiateAuth ''USER_SRP_AUTH'' auth_params (client_id self)) sent)
           (\<lambda>response sent.
         sbind (require ''ChallengeName'' (ChallengeName response), sent)
           (\<lambda>challenge_name sent.
         if challenge_name = PASSWORD_VERIFIER_CHALLENGE
         then
           sbind (require ''ChallengeParameters'' (ChallengeParameters response), sent)
             (\<lambda>challenge_parameters sent.
           sbind (process_challenge L self (utcnow E sent) challenge_parameters, sent)
             (\<lambda>challenge_response sent.
           sbind (call E (RespondToAuthChallenge (client_id self) PASSWORD_VERIFIER_CHALLENGE
                            challenge_response None) sent)
             (\<lambda>tokens sent.
           sbind (require ''ChallengeName'' (ChallengeName tokens), sent)
             (\<lambda>tokens_challenge_name sent.
           if tokens_challenge_name = NEW_PASSWORD_REQUIRED_CHALLENGE
           then
             (let challenge_response = [''USERNAME'' \<mapsto> username self,
                                        ''NEW_PASSWORD'' \<mapsto> new_password]
              in sbind (require ''Session'' (Session tokens), sent)
                   (\<lambda>session sent.
                 call E (RespondToAuthChallenge (client_id self) NEW_PASSWORD_REQUIRED_CHALLENGE
                           challenge_response (Some session)) sent))
           else (Inr tokens, sent)))))
         else (Inl (NotImplementedError (''The '' @ challenge_name @ '' challenge is not supported'')),
               sent))))"

text \<open>
  \<open>generate_hash_device\<close>; \<open>urandom40\<close> and \<open>urandom16\<close> are the results of
  \<open>os.urandom(40)\<close> and of the \<open>os.urandom(16)\<close> inside \<open>get_random(16)\<close>.
\<close>

definition generate_hash_device ::
  "lib \<Rightarrow> bytes \<Rightarrow> bytes \<Rightarrow> string option \<Rightarrow> string option \<Rightarrow>
   error + (string \<times> (string \<rightharpoonup> string))" where
  "generate_hash_device L urandom40 urandom16 device_group_key' device_key' =
     (let device_password' = b64encode L urandom40;
          combined_string = str_of device_group_key' @ str_of device_key' @ '':'' @ device_password';
          combined_string_hash = hash_sha256 L combined_string
      in bind (get_random L urandom16) (\<lambda>random_long.
         bind (pad_hex (PyInt random_long)) (\<lambda>salt.
         bind (hex_hash L (salt @ combined_string_hash)) (\<lambda>x_hash.
         bind (hex_to_long L x_hash) (\<lambda>x_value.
         bind (hex_to_long L g_hex) (\<lambda>g'.
         bind (hex_to_long L n_hex) (\<lambda>big_n'.
         bind (py_pow L g' x_value big_n') (\<lambda>verifier_device_not_padded.
         bind (pad_hex (PyInt verifier_device_not_padded)) (\<lambda>verifier.
         bind (fromhex L verifier) (\<lambda>verifier_bytes.
         bind (fromhex L salt) (\<lambda>salt_bytes.
         let device_secret_verifier_config =
               [''PasswordVerifier'' \<mapsto> b64encode L verifier_bytes,
                ''Salt'' \<mapsto> b64encode L salt_bytes]
         in Inr (device_password', device_secret_verifier_config))))))))))))"

section \<open>The session (class Cognito, \_\_init\_\_.py)\<close>

datatype json = JNull | JBool bool | JNum int | JStr string | JArr "json list"

type_synonym jwk = "string \<rightharpoonup> json"

text \<open>A JWKS document: a dictionary whose values are lists of keys.\<close>

type_synonym jwks = "(string \<times> jwk list) list"

text \<open>
  The functions of the \<open>jose\<close> library, the \<open>COGNITO_JWKS\<close> environment variable as
  \<open>env('COGNITO_JWKS', {}, var_type='dict')\<close> reads it, and \<open>requests.get(url).json()\<close>.
  \<open>decode J token key audience issuer\<close> is
  \<open>jwt.decode(token, key, algorithms=['RS256'], audience=audience, issuer=issuer)\<close>.
\<close>

record jose =
  get_unverified_header :: "string \<Rightarrow> error + (string \<rightharpoonup> json)"
  get_unverified_claims :: "string \<Rightarrow> error + (string \<rightharpoonup> json)"
  decode :: "string \<Rightarrow> jwk \<Rightarrow> json option \<Rightarrow> json option \<Rightarrow> error + (string \<rightharpoonup> json)"
  cognito_jwks_env :: jwks
  requests_get_json :: "string \<Rightarrow> error + jwks"

text \<open>
  The attributes of a \<open>Cognito\<close> object that hold a string or \<open>None\<close>, by name
  (\<open>user_pool_id\<close>, \<open>client_id\<close>, \<open>user_pool_region\<close>, \<open>username\<close>, \<open>id_token\<close>,
  \<open>access_token\<close>, \<open>refresh_token\<close>, \<open>client_secret\<close>, \<open>token_type\<close>, \<open>device_key\<close>,
  \<open>device_group_key\<close>, \<open>device_password\<close>), and the cached key set.
\<close>

record cognito =
  attrs :: "string \<rightharpoonup> string"
  pool_jwk :: "jwks option"

definition setattr :: "cognito \<Rightarrow> string \<Rightarrow> string \<Rightarrow> cognito" where
  "setattr self name v = self\<lparr>attrs := (attrs self)(name \<mapsto> v)\<rparr>"

definition setattr_opt :: "cognito \<Rightarrow> string \<Rightarrow> string option \<Rightarrow> cognito" where
  "setattr_opt self name v = self\<lparr>attrs := (attrs self)(name := v)\<rparr>"

text \<open>
  An attribute that is passed where the callee needs a string: with \<open>None\<close> the callee
  raises (\<open>TypeError\<close> in a concatenation, or the validation of the request's
  parameters), which the model does when it reads the attribute.
\<close>

definition str_attr :: "cognito \<Rightarrow> string \<Rightarrow> error + string" where
  "str_attr self name = (case attrs self name of None \<Rightarrow> Inl TypeError | Some v \<Rightarrow> Inr v)"

definition get_keys :: "jose \<Rightarrow> cognito \<Rightarrow> (error + jwks) \<times> cognito" where
  "get_keys J self =
     (if pool_jwk self \<noteq> None \<and> pool_jwk self \<noteq> Some []
      then (Inr (the (pool_jwk self)), self)
      else
        (let pool_jwk_env = cognito_jwks_env J
         in if length pool_jwk_env > 0
            then (Inr pool_jwk_env, self\<lparr>pool_jwk := Some pool_jwk_env\<rparr>)
            else
              (case requests_get_json J
                      (''https://cognito-idp.'' @ str_of (attrs self ''user_pool_region'')
                       @ ''.amazonaws.com/'' @ str_of (attrs self ''user_pool_id'')
                       @ ''/.well-known/jwks.json'') of
                 Inl e \<Rightarrow> (Inl e, self)
               | Inr fetched \<Rightarrow> (Inr fetched, self\<lparr>pool_jwk := Some fetched\<rparr>))))"

text \<open>
  \<open>get_key\<close>; \<open>filter\<close> over the \<open>None\<close> that \<open>.get('keys')\<close> returns for a document
  without keys raises \<open>TypeError\<close>, and \<open>key[0]\<close> on an empty list \<open>IndexError\<close>.
\<close>

definition get_key :: "jose \<Rightarrow> json option \<Rightarrow> cognito \<Rightarrow> (error + jwk) \<times> cognito" where
  "get_key J kid self =
     sbind (get_keys J self) (\<lambda>document self.
       case map_of document ''keys'' of
         None \<Rightarrow> (Inl TypeError, self)
       | Some keys \<Rightarrow> (getindex (filter (\<lambda>x. x ''kid'' = kid) keys) 0, self))"

definition verify_token ::
  "jose \<Rightarrow> string \<Rightarrow> string \<Rightarrow> string \<Rightarrow> cognito \<Rightarrow> (error + (string \<rightharpoonup> json)) \<times> cognito" where
  "verify_token J token id_name token_use self =
     sbind (get_unverified_header J token, self) (\<lambda>header self.
     let kid = header ''kid''
     in sbind (get_unverified_claims J token, self) (\<lambda>unverified_claims self.
        let token_use_verified = (unverified_claims ''token_use'' = Some (JStr token_use))
        in if \<not> token_use_verified
           then (Inl (TokenVerificationException ''Your {} token use could not be verified.''), self)
           else
             sbind (get_key J kid self) (\<lambda>hmac_key self.
               case decode J token hmac_key (unverified_claims ''aud'') (unverified_claims ''iss'') of
                 Inl (JWTError m) \<Rightarrow>
                   (Inl (TokenVerificationException ''Your {} token could not be verified.''), self)
               | Inl e \<Rightarrow> (Inl e, self)
               | Inr verified \<Rightarrow> (Inr verified, setattr self id_name token))))"

text \<open>
  The state of the methods below is the object together with the requests sent so far.
\<close>

type_synonym world = "cognito \<times> request list"

definition on_client :: "(request list \<Rightarrow> (error + 'a) \<times> request list) \<Rightarrow> world \<Rightarrow> (error + 'a) \<times> world" where
  "on_client f w = (case f (snd w) of (r, sent) \<Rightarrow> (r, (fst w, sent)))"

definition on_self :: "(cognito \<Rightarrow> (error + 'a) \<times> cognito) \<Rightarrow> world \<Rightarrow> (error + 'a) \<times> world" where
  "on_self f w = (case f (fst w) of (r, self) \<Rightarrow> (r, (self, snd w)))"

definition assign :: "string \<Rightarrow> string \<Rightarrow> world \<Rightarrow> (error + unit) \<times> world" where
  "assign name v w = (Inr (), (setattr (fst w) name v, snd w))"

text \<open>
  The end of \<open>authenticate\<close>, \<open>authenticate_with_mfa_token\<close> and
  \<open>new_password_challenge\<close>: the device information of the result is saved.
\<close>

definition save_device_metadata :: "authentication_result \<Rightarrow> world \<Rightarrow> (error + unit) \<times> world" where
  "save_device_metadata result w =
     (case NewDeviceMetadata result of
        None \<Rightarrow> (Inr (), w)
      | Some metadata \<Rightarrow>
          sbind (require ''DeviceKey'' (DeviceKey metadata), w) (\<lambda>dk w.
          sbind (assign ''device_key'' dk w) (\<lambda>_ w.
          sbind (require ''DeviceGroupKey'' (DeviceGroupKey metadata), w) (\<lambda>dgk w.
          assign ''device_group_key'' dgk w))))"

text \<open>
  The construction \<open>AWSSRP(username=self.username, password=password,
  pool_id=self.user_pool_id, client_id=self.client_id, client=self.client,
  client_secret=self.client_secret, ...)\<close>; \<open>urandom\<close> is its \<open>os.urandom(128)\<close>.
\<close>

definition new_awssrp ::
  "lib \<Rightarrow> cognito \<Rightarrow> string \<Rightarrow> string option \<Rightarrow> string option \<Rightarrow> string option \<Rightarrow> bytes \<Rightarrow>
   error + awssrp" where
  "new_awssrp L self password' device_key' device_group_key' device_password' urandom =
     bind (str_attr self ''username'') (\<lambda>username'.
     bind (str_attr self ''user_pool_id'') (\<lambda>pool_id'.
     bind (str_attr self ''client_id'') (\<lambda>client_id'.
     awssrp_init L username' password' pool_id' client_id' None True
       (attrs self ''client_secret'') device_key' device_password' device_group_key' urandom)))"

definition authenticate ::
  "lib \<Rightarrow> jose \<Rightarrow> env \<Rightarrow> bytes \<Rightarrow> string \<Rightarrow> world \<Rightarrow> (error + unit) \<times> world" where
  "authenticate L J E urandom password' w =
     sbind (new_awssrp L (fst w) password' (attrs (fst w) ''device_key'')
              (attrs (fst w) ''device_group_key'') (attrs (fst w) ''device_password'') urandom, w)
       (\<lambda>aws w.
     sbind (on_client (authenticate_user L E aws) w) (\<lambda>user_tokens w.
     sbind (require ''AuthenticationResult'' (AuthenticationResult user_tokens), w) (\<lambda>result w.
     sbind (require ''IdToken'' (IdToken result), w) (\<lambda>id_token w.
     sbind (on_self (verify_token J id_token ''id_token'' ''id'') w) (\<lambda>_ w.
     sbind (require ''RefreshToken'' (RefreshToken result), w) (\<lambda>refresh_token w.
     sbind (assign ''refresh_token'' refresh_token w) (\<lambda>_ w.
     sbind (require ''AccessToken'' (AccessToken result), w) (\<lambda>access_token w.
     sbind (on_self (verify_token J access_token ''access_token'' ''access'') w) (\<lambda>_ w.
     sbind (require ''TokenType'' (TokenType result), w) (\<lambda>token_type w.
     sbind (assign ''token_type'' token_type w) (\<lambda>_ w.
     save_device_metadata result w)))))))))))"

definition authenticate_with_mfa_token ::
  "lib \<Rightarrow> jose \<Rightarrow> env \<Rightarrow> bytes \<Rightarrow> string \<Rightarrow> string \<Rightarrow> world \<Rightarrow> (error + unit) \<times> world" where
  "authenticate_with_mfa_token L J E urandom password' mfaToken w =
     sbind (new_awssrp L (fst w) password' (attrs (fst w) ''device_key'')
              (attrs (fst w) ''device_group_key'') (attrs (fst w) ''device_password'') urandom, w)
       (\<lambda>aws w.
     sbind (on_client (authenticate_user_with_mfa_token L E aws mfaToken) w) (\<lambda>user_tokens w.
     sbind (require ''AuthenticationResult'' (AuthenticationResult user_tokens), w) (\<lambda>result w.
     sbind (require ''IdToken'' (IdToken result), w) (\<lambda>id_token w.
     sbind (on_self (verify_token J id_token ''id_token'' ''id'') w) (\<lambda>_ w.
     sbind (require ''RefreshToken'' (RefreshToken result), w) (\<lambda>refresh_token w.
     sbind (assign ''refresh_token'' refresh_token w) (\<lambda>_ w.
     sbind (require ''AccessToken'' (AccessToken result), w) (\<lambda>access_token w.
     sbind (on_self (verify_token J access_token ''access_token'' ''access'') w) (\<lambda>_ w.
     sbind (require ''TokenType'' (TokenType result), w) (\<lambda>token_type w.
     sbind (assign ''token_type'' token_type w) (\<lambda>_ w.
     save_device_metadata result w)))))))))))"

definition new_password_challenge ::
  "lib \<Rightarrow> env \<Rightarrow> bytes \<Rightarrow> string \<Rightarrow> string \<Rightarrow> world \<Rightarrow> (error + unit) \<times> world" where
  "new_password_challenge L E urandom password' new_password w =
     sbind (new_awssrp L (fst w) password' None None None urandom, w) (\<lambda>aws w.
     sbind (on_client (set_new_password_challenge L E aws new_password) w) (\<lambda>tokens w.
     sbind (require ''AuthenticationResult'' (AuthenticationResult tokens), w) (\<lambda>result w.
     sbind (require ''IdToken'' (IdToken result), w) (\<lambda>id_token w.
     sbind (assign ''id_token'' id_token w) (\<lambda>_ w.
     sbind (require ''RefreshToken'' (RefreshToken result), w) (\<lambda>refresh_token w.
     sbind (assign ''refresh_token'' refresh_token w) (\<lambda>_ w.
     sbind (require ''AccessToken'' (AccessToken result), w) (\<lambda>access_token w.
     sbind (assign ''access_token'' access_token w) (\<lambda>_ w.
     sbind (require ''TokenType'' (TokenType result), w) (\<lambda>token_type w.
     sbind (assign ''token_type'' token_type w) (\<lambda>_ w.
     save_device_metadata result w)))))))))))"

definition can_register_device :: "cognito \<Rightarrow> bool" where
  "can_register_device self =
     (attrs self ''device_group_key'' \<noteq> None \<and> attrs self ''device_password'' = None)"

text \<open>
  \<open>register_device\<close>; \<open>urandom40\<close> and \<open>urandom16\<close> are the random bytes that
  \<open>generate_hash_device\<close> draws.
\<close>

definition register_device ::
  "lib \<Rightarrow> env \<Rightarrow> bytes \<Rightarrow> bytes \<Rightarrow> string \<Rightarrow> bool \<Rightarrow> world \<Rightarrow> (error + string) \<times> world" where
  "register_device L E urandom40 urandom16 device_name remember_device w =
     (if \<not> can_register_device (fst w)
      then (Inl (ValueError ''Device cannot be registered. This is not enabled in Cognito''), w)
      else
        sbind (generate_hash_device L urandom40 urandom16 (attrs (fst w) ''device_group_key'')
                 (attrs (fst w) ''device_key''), w)
          (\<lambda>(device_password', device_secret_verifier_config) w.
        sbind (assign ''device_password'' device_password' w) (\<lambda>_ w.
        sbind (on_client (call E (ConfirmDevice (attrs (fst w) ''access_token'')
                                    (attrs (fst w) ''device_key'')
                                    device_secret_verifier_config device_name)) w) (\<lambda>_ w.
        sbind (on_client (call E (UpdateDeviceStatus (attrs (fst w) ''access_token'')
                                    (attrs (fst w) ''device_key'')
                                    (if remember_device then ''remembered'' else ''not_remembered''))) w)
          (\<lambda>_ w.
        (Inr device_password', w))))))"

section \<open>The specification's shared secret\<close>



text \<open>
  The specification's full password: \<open>"<pool-short-id><USER_ID_FOR_SRP>:<password>"\<close>,
  where the pool short id is the substring of the pool id after the first \<open>_\<close>.
\<close>

definition spec_pool_short_id :: "string \<Rightarrow> string" where
  "spec_pool_short_id pool = tl (dropWhile (\<lambda>c. c \<noteq> CHR ''_'') pool)"

definition spec_full_password :: "string \<Rightarrow> string \<Rightarrow> string \<Rightarrow> string" where
  "spec_full_password pool user_id_for_srp password' =
     spec_pool_short_id pool @ user_id_for_srp @ '':'' @ password'"

section \<open>A concrete library for the examples\<close>

text \<open>
  The theorems below hold for every library. Their examples are evaluated with this
  one: a digest of one byte, an authentication code that shows its key and its message,
  base64 as the identity, no configured region for \<open>boto3.client\<close>, and the library
  cases that the examples do not reach as errors.
\<close>

definition example_lib :: lib where
  "example_lib =
     \<lparr> sha256 = (\<lambda>buf. [CHR 0x01]),
       hmac_sha256 = (\<lambda>key msg. key @ ''|'' @ msg),
       b64encode = (\<lambda>b. b),
       b64decode = (\<lambda>s. Inr s),
       int16_other = (\<lambda>s. Inl (ValueError ''invalid literal for int() with base 16'')),
       fromhex_other = (\<lambda>s. Inl (ValueError ''non-hexadecimal number found in fromhex() arg'')),
       pow_neg = (\<lambda>b e m. Inl (ValueError ''base is not invertible for the given modulus'')),
       boto3_client = (\<lambda>region. case region of
                                   None \<Rightarrow> Inl ''You must specify a region.''
                                 | Some r \<Rightarrow> Inr ()) \<rparr>"

text \<open>A client object over a small group, for examples with a negative base.\<close>

definition example_small_self :: awssrp where
  "example_small_self =
     \<lparr> username = ''alice'', password = ''pw'', pool_id = ''eu-west-1_Pool'', client_id = ''abc'',
       client_secret = None, device_key = None, device_group_key = None, device_password = None,
       big_n = 23, g = 2, k = 3, small_a_value = 6, large_a_value = 18 \<rparr>"

text \<open>A draw of 128 random bytes with the value 5.\<close>

definition example_urandom :: bytes where
  "example_urandom = replicate 127 (CHR 0x00) @ [CHR 0x05]"

text \<open>A client object with a client secret and an enrolled device.\<close>

definition example_device_self :: awssrp where
  "example_device_self =
     example_small_self\<lparr> client_secret := Some ''s3cret'', device_key := Some ''dk'',
                          device_group_key := Some ''dgk'', device_password := Some ''dpw'' \<rparr>"

text \<open>The parameters of a password challenge and of a device challenge.\<close>

definition example_challenge :: "string \<rightharpoonup> string" where
  "example_challenge =
     [''USER_ID_FOR_SRP'' \<mapsto> ''u-123'', ''USERNAME'' \<mapsto> ''u-123'', ''SALT'' \<mapsto> ''ab'',
      ''SRP_B'' \<mapsto> ''5'', ''SECRET_BLOCK'' \<mapsto> ''blk'']"

definition example_device_challenge :: "string \<rightharpoonup> string" where
  "example_device_challenge =
     [''USERNAME'' \<mapsto> ''u-456'', ''SALT'' \<mapsto> ''ab'', ''SRP_B'' \<mapsto> ''5'',
      ''SECRET_BLOCK'' \<mapsto> ''blk'']"

definition example_now :: string where
  "example_now = ''Fri Jan 05 09:07:02 UTC 2024''"

text \<open>
  A service for the examples: it answers the first request with the password challenge;
  the second with tokens when \<open>second\<close> is \<open>None\<close>, and otherwise with a response that
  names the challenge \<open>second\<close> in session \<open>S1\<close>, with the \<open>USERNAME\<close> \<open>u-mfa\<close> in
  its parameters; and every later one with tokens. The ID
  token it issues is one that the example of the \<open>jose\<close> library below refuses.
\<close>

definition example_tokens :: response where
  "example_tokens =
     \<lparr> ChallengeName = None, ChallengeParameters = None, Session = None,
       AuthenticationResult =
         Some \<lparr> IdToken = Some ''forged-id-token'', AccessToken = Some ''access-token'',
                RefreshToken = Some ''refresh-token'', TokenType = Some ''Bearer'',
                NewDeviceMetadata = None \<rparr> \<rparr>"

definition example_client :: "string option \<Rightarrow> request list \<Rightarrow> string + response" where
  "example_client second sent =
     (case sent of
        [r1] \<Rightarrow>
          Inr \<lparr> ChallengeName = Some ''PASSWORD_VERIFIER'',
                ChallengeParameters = Some example_challenge,
                Session = None, AuthenticationResult = None \<rparr>
      | [r1, r2] \<Rightarrow>
          (case second of
             None \<Rightarrow> Inr example_tokens
           | Some name \<Rightarrow>
               Inr \<lparr> ChallengeName = Some name,
                     ChallengeParameters = Some [''USERNAME'' \<mapsto> ''u-mfa''],
                     Session = Some ''S1'', AuthenticationResult = None \<rparr>)
      | _ \<Rightarrow> Inr example_tokens)"

definition example_env :: "string option \<Rightarrow> env" where
  "example_env second = \<lparr> client = example_client second, utcnow = (\<lambda>sent. example_now) \<rparr>"

text \<open>
  The \<open>jose\<close> library for the examples: every token has the key id \<open>k1\<close> and the
  claim \<open>token_use\<close> that its name says; the signature of \<open>forged-id-token\<close> does not
  verify. The key set comes from the environment variable.
\<close>

definition example_claims :: "string \<Rightarrow> (string \<rightharpoonup> json)" where
  "example_claims token =
     [''token_use'' \<mapsto> JStr (if token = ''access-token'' then ''access'' else ''id''),
      ''aud'' \<mapsto> JStr ''abc'', ''iss'' \<mapsto> JStr ''https://cognito-idp.eu-west-1.amazonaws.com/eu-west-1_Pool'']"

definition example_jose :: jose where
  "example_jose =
     \<lparr> get_unverified_header = (\<lambda>token. Inr [''kid'' \<mapsto> JStr ''k1'']),
       get_unverified_claims = (\<lambda>token. Inr (example_claims token)),
       decode = (\<lambda>token key audience issuer.
                  if token = ''forged-id-token'' then Inl (JWTError ''Signature verification failed.'')
                  else Inr (example_claims token)),
       cognito_jwks_env = [(''keys'', [[''kid'' \<mapsto> JStr ''k1'']])],
       requests_get_json = (\<lambda>url. Inl (LibraryError ''no network'')) \<rparr>"

text \<open>A session with a device key and a device group key, and no device password.\<close>

definition example_cognito :: cognito where
  "example_cognito =
     \<lparr> attrs = [''user_pool_id'' \<mapsto> ''eu-west-1_Pool'', ''client_id'' \<mapsto> ''abc'',
                ''user_pool_region'' \<mapsto> ''eu-west-1'', ''username'' \<mapsto> ''alice'',
                ''access_token'' \<mapsto> ''old-access-token'',
                ''device_key'' \<mapsto> ''dk'', ''device_group_key'' \<mapsto> ''dgk''],
       pool_jwk = None \<rparr>"

definition example_urandom16 :: bytes where
  "example_urandom16 = ''0123456789abcdef''"

definition example_urandom40 :: bytes where
  "example_urandom40 = ''0123456789012345678901234567890123456789''"

text \<open>
  The service of the specification's scenario 5: the answer to the password response
  names \<open>SOFTWARE_TOKEN_MFA\<close> with \<open>Session\<close> \<open>S1\<close> and
  \<open>ChallengeParameters.USERNAME\<close> \<open>u-123\<close>. \<open>first\<close> is the \<open>USERNAME\<close> of the
  parameters of the password challenge that it sends before, if it sends one there.
\<close>

definition scenario5_client :: "string option \<Rightarrow> request list \<Rightarrow> string + response" where
  "scenario5_client first sent =
     (case sent of
        [r1] \<Rightarrow>
          Inr \<lparr> ChallengeName = Some ''PASSWORD_VERIFIER'',
                ChallengeParameters = Some (example_challenge(''USERNAME'' := first)),
                Session = None, AuthenticationResult = None \<rparr>
      | [r1, r2] \<Rightarrow>
          Inr \<lparr> ChallengeName = Some ''SOFTWARE_TOKEN_MFA'',
                ChallengeParameters = Some [''USERNAME'' \<mapsto> ''u-123''],
                Session = Some ''S1'', AuthenticationResult = None \<rparr>
      | _ \<Rightarrow> Inr example_tokens)"

definition scenario5_env :: "string option \<Rightarrow> env" where
  "scenario5_env first = \<lparr> client = scenario5_client first, utcnow = (\<lambda>sent. example_now) \<rparr>"

section \<open>Properties of the hexadecimal encoding\<close>

lemma lt16_cases:
  "d < 16 \<Longrightarrow> d \<in> {0, 1, 2, 3, 4, 5, 6, 7, 8, 9, 10, 11, 12, 13, 14, 15::nat}"
  by simp arith

lemma hex_digit_lt16: "d < 16 \<Longrightarrow> hex_val (hex_digit d) = Some d"
  by (drule lt16_cases) (auto simp: hex_digit_def hex_val_def)

lemma hex_digit_mem: "d < 16 \<Longrightarrow> hex_digit d \<in> set ''0123456789abcdef''"
  unfolding hex_digit_def by (rule nth_mem) simp

lemma hex_digit_high: "d < 16 \<Longrightarrow> hex_digit d \<in> set ''89ABCDEFabcdef'' \<longleftrightarrow> 8 \<le> d"
  by (drule lt16_cases) (auto simp: hex_digit_def)

lemma to_hex_nonempty: "to_hex n \<noteq> []"
  by (subst to_hex.simps) simp

lemma to_hex_digits: "list_all is_hexdigit (to_hex n)"
proof (induction n rule: to_hex.induct)
  case (1 n)
  show ?case
  proof (cases "n < 16")
    case True
    then show ?thesis by (subst to_hex.simps) (simp add: is_hexdigit_def hex_digit_lt16)
  next
    case False
    with 1 have "list_all is_hexdigit (to_hex (n div 16))" by simp
    with False show ?thesis by (subst to_hex.simps) (simp add: is_hexdigit_def hex_digit_lt16)
  qed
qed

lemma hex_value_snoc: "hex_value (s @ [c]) = 16 * hex_value s + the (hex_val c)"
  by (simp add: hex_value_def)

lemma hex_value_to_hex: "hex_value (to_hex n) = n"
proof (induction n rule: to_hex.induct)
  case (1 n)
  show ?case
  proof (cases "n < 16")
    case True
    then show ?thesis by (subst to_hex.simps) (simp add: hex_value_def hex_digit_lt16)
  next
    case False
    with 1 show ?thesis by (subst to_hex.simps) (simp add: hex_value_snoc hex_digit_lt16)
  qed
qed

lemma hd_to_hex: "0 < n \<Longrightarrow> \<exists>d. 0 < d \<and> d < 16 \<and> hd (to_hex n) = hex_digit d"
proof (induction n rule: to_hex.induct)
  case (1 n)
  show ?case
  proof (cases "n < 16")
    case True
    with 1 show ?thesis by (subst to_hex.simps) auto
  next
    case False
    then have "0 < n div 16" by (simp add: div_greater_zero_iff)
    with 1 False obtain d where "0 < d" "d < 16" "hd (to_hex (n div 16)) = hex_digit d" by blast
    with False show ?thesis by (subst to_hex.simps) (auto simp: to_hex_nonempty)
  qed
qed


lemma to_hex_lower: "set (to_hex n) \<subseteq> set ''0123456789abcdef''"
proof (induction n rule: to_hex.induct)
  case (1 n)
  show ?case
  proof (cases "n < 16")
    case True
    then show ?thesis using hex_digit_mem [of n] by (subst to_hex.simps) simp
  next
    case False
    with 1 have "set (to_hex (n div 16)) \<subseteq> set ''0123456789abcdef''" by simp
    with False show ?thesis using hex_digit_mem [of "n mod 16"]
      by (subst to_hex.simps) simp
  qed
qed

lemma hd_to_hex_digit: "\<exists>d. d < 16 \<and> hd (to_hex n) = hex_digit d \<and> (0 < n \<longrightarrow> 0 < d)"
proof (cases "0 < n")
  case True
  then show ?thesis using hd_to_hex [of n] by blast
next
  case False
  then have "to_hex n = [hex_digit 0]" by (subst to_hex.simps) simp
  with False show ?thesis by (intro exI [of _ 0]) simp
qed

lemma hex_to_long_to_hex: "hex_to_long L (to_hex n) = Inr (int n)"
  by (simp add: hex_to_long_def to_hex_nonempty to_hex_digits hex_value_to_hex)

lemma first_byte_bound:
  assumes "hex_val a = Some x" "x < 8" "hex_val b = Some y" "y < 16"
  shows "(of_char (hd (hex_pairs (a # b # r))) :: nat) < 128"
  using assms by simp

lemma hex_val_lt16: "hex_val c = Some y \<Longrightarrow> y < 16"
  by (auto simp: hex_val_def Let_def split: if_splits)

lemma is_hexdigit_zero: "is_hexdigit CHR ''0''" "hex_val CHR ''0'' = Some 0"
  by (simp_all add: is_hexdigit_def hex_val_def)

lemma pad_hex_nat:
  fixes n :: nat
  defines "h \<equiv> to_hex n"
  defines "r \<equiv> (if odd (length h) then CHR ''0'' # h
                 else if hd h \<in> set ''89ABCDEFabcdef'' then ''00'' @ h else h)"
  shows "pad_hex (PyInt (int n)) = Inr r"
    and "even (length r)"
    and "list_all is_hexdigit r"
    and "\<exists>b bs. hex_pairs r = b # bs \<and> (of_char b :: nat) < 128"
proof -
  have hne: "h \<noteq> []" by (simp add: h_def to_hex_nonempty)
  then obtain a t where h: "h = a # t" by (cases h) auto
  have hd: "list_all is_hexdigit h" by (simp add: h_def to_hex_digits)
  obtain d where d: "d < 16" "a = hex_digit d"
    using hd_to_hex_digit [of n] h by (auto simp: h_def)
  have lh: "long_to_hex (int n) = h" by (simp add: long_to_hex_def h_def)
  show "pad_hex (PyInt (int n)) = Inr r"
  proof (cases "odd (length h)")
    case True
    then have "length h mod 2 = 1" by (simp add: odd_iff_mod_2_eq_one)
    then show ?thesis using True by (simp add: pad_hex_def lh r_def)
  next
    case False
    then have "length h mod 2 \<noteq> 1" by (simp add: odd_iff_mod_2_eq_one)
    then show ?thesis using False h by (simp add: pad_hex_def lh r_def)
  qed
  show "even (length r)" by (simp add: r_def)
  show "list_all is_hexdigit r" using hd by (simp add: r_def is_hexdigit_zero)
  show "\<exists>b bs. hex_pairs r = b # bs \<and> (of_char b :: nat) < 128"
  proof (cases "odd (length h)")
    case True
    obtain y where y: "hex_val a = Some y" using hd h by (auto simp: is_hexdigit_def)
    then have "y < 16" by (rule hex_val_lt16)
    with True y h show ?thesis by (simp add: r_def is_hexdigit_zero)
  next
    case ev: False
    show ?thesis
    proof (cases "hd h \<in> set ''89ABCDEFabcdef''")
      case True
      with ev show ?thesis by (simp add: r_def is_hexdigit_zero)
    next
      case False
      then have "\<not> 8 \<le> d" using hex_digit_high [OF d(1)] d(2) h by simp
      then have d8: "d < 8" by simp
      from ev h obtain b t' where t: "t = b # t'" by (cases t) auto
      obtain y where y: "hex_val b = Some y" using hd h t by (auto simp: is_hexdigit_def)
      then have "y < 16" by (rule hex_val_lt16)
      have "hex_val a = Some d" using d by (simp add: hex_digit_lt16)
      from first_byte_bound [OF this d8 y \<open>y < 16\<close>, of t']
      have "(of_char (hd (hex_pairs h)) :: nat) < 128" by (simp only: h t)
      moreover have "hex_pairs h \<noteq> []" by (simp add: h t)
      moreover have "r = h" using ev False by (simp add: r_def)
      ultimately show ?thesis by (cases "hex_pairs h") auto
    qed
  qed
qed

section \<open>Properties of the hashing and arithmetic helpers\<close>

lemma bind_Inr [simp]: "bind (Inr v) f = f v"
  by (simp add: bind_def)

lemma bind_Inl [simp]: "bind (Inl e) f = Inl e"
  by (simp add: bind_def)

lemma byte_nibbles: "(of_char b :: nat) div 16 < 16" "(of_char b :: nat) mod 16 < 16"
proof -
  have "(of_char b :: nat) < 256" by (rule nat_of_char_less_256)
  then show "(of_char b :: nat) div 16 < 16" by (simp add: div_less_iff_less_mult)
  show "(of_char b :: nat) mod 16 < 16" by simp
qed

lemma hexlify_digits: "list_all is_hexdigit (hexlify bs)"
  by (induction bs) (simp_all add: hexlify_def is_hexdigit_def hex_digit_lt16 byte_nibbles)

lemma hexlify_even: "even (length (hexlify bs))"
  by (induction bs) (simp_all add: hexlify_def)

lemma hexlify_length: "length (hexlify bs) = 2 * length bs"
  by (induction bs) (simp_all add: hexlify_def)

lemma hash_sha256_digits: "list_all is_hexdigit (hash_sha256 L buf)"
  using hexlify_digits [of "sha256 L buf"]
  by (auto simp: hash_sha256_def Let_def list_all_iff is_hexdigit_zero)

lemma hash_sha256_length: "64 \<le> length (hash_sha256 L buf)"
  by (simp add: hash_sha256_def Let_def)

lemma hash_sha256_even: "even (length (hash_sha256 L buf))"
  by (cases "length (hexlify (sha256 L buf)) \<le> 64")
     (simp_all add: hash_sha256_def Let_def hexlify_even)

lemma hash_sha256_nonempty: "hash_sha256 L buf \<noteq> []"
  using hash_sha256_length [of L buf] by auto

lemma hex_to_long_hash: "hex_to_long L (hash_sha256 L buf) = Inr (int (hex_value (hash_sha256 L buf)))"
  by (simp add: hex_to_long_def hash_sha256_nonempty hash_sha256_digits)




lemma srp_s_value_eq:
  assumes "big_n self \<noteq> 0" "0 \<le> x" "0 \<le> small_a_value self" "0 \<le> U"
  shows "srp_s_value L self B U x =
           Inr ((B - k self * (g self ^ nat x mod big_n self)) ^ nat (small_a_value self + U * x)
                mod big_n self)"
proof -
  have "\<not> small_a_value self + U * x < 0" using assms by (simp add: not_less)
  moreover have "\<not> x < 0" using assms by simp
  ultimately show ?thesis using assms(1) by (simp add: srp_s_value_def py_pow_def)
qed

section \<open>Properties of splitting a string\<close>

lemma split_on_nonempty: "split_on sep s \<noteq> []"
  by (induction s) (auto split: list.splits)

lemma split_on_no_sep: "sep \<notin> set s \<Longrightarrow> split_on sep s = [s]"
  by (induction s) auto

lemma split_on_prefix:
  "sep \<notin> set pre \<Longrightarrow> split_on sep (pre @ sep # rest) = pre # split_on sep rest"
  by (induction pre) auto

lemma split_on_second:
  assumes "sep \<notin> set pre" "sep \<notin> set seg" "rest = [] \<or> hd rest = sep"
  shows "getindex (split_on sep (pre @ sep # seg @ rest)) 1 = Inr seg"
proof -
  have "\<exists>ys. split_on sep (seg @ rest) = seg # ys"
  proof (cases rest)
    case Nil
    then show ?thesis using assms(2) by (simp add: split_on_no_sep)
  next
    case (Cons c cs)
    with assms(3) have "c = sep" by simp
    with Cons show ?thesis using assms(2) by (simp add: split_on_prefix)
  qed
  then obtain ys where "split_on sep (seg @ rest) = seg # ys" by blast
  then show ?thesis using assms(1) by (simp add: split_on_prefix getindex_def)
qed

text \<open>Every string with a separator has this shape.\<close>

lemma split_shape:
  assumes "sep \<in> set s"
  shows "\<exists>pre seg rest. s = pre @ sep # seg @ rest \<and> sep \<notin> set pre \<and> sep \<notin> set seg
           \<and> (rest = [] \<or> hd rest = sep)"
proof -
  from assms obtain pre t where s: "s = pre @ sep # t" "sep \<notin> set pre"
    by (meson split_list_first)
  show ?thesis
  proof (cases "sep \<in> set t")
    case False
    with s show ?thesis by (intro exI [of _ pre] exI [of _ t] exI [of _ "[]"]) simp
  next
    case True
    then obtain seg u where "t = seg @ sep # u" "sep \<notin> set seg" by (meson split_list_first)
    with s show ?thesis by (intro exI [of _ pre] exI [of _ seg] exI [of _ "sep # u"]) simp
  qed
qed

section \<open>Properties of the specification's definitions\<close>

lemma spec_pool_short_id_shape:
  "sep = CHR ''_'' \<Longrightarrow> sep \<notin> set pre \<Longrightarrow> spec_pool_short_id (pre @ sep # t) = t"
proof -
  assume a: "sep = CHR ''_''" "sep \<notin> set pre"
  then have "dropWhile (\<lambda>c. c \<noteq> sep) pre = []" by (simp add: dropWhile_eq_Nil_conv) metis
  then show ?thesis using a by (simp add: spec_pool_short_id_def dropWhile_append3)
qed

section \<open>Properties of the group constants and of the random draw\<close>

lemma n_hex_digits: "list_all is_hexdigit n_hex"
  by (simp add: n_hex_def is_hexdigit_def hex_val_def)

lemma n_hex_length: "length n_hex = 768"
  by (simp add: n_hex_def)

lemma foldl_hex_acc:
  "foldl (\<lambda>acc c. 16 * acc + the (hex_val c)) a s
     = a * 16 ^ length s + foldl (\<lambda>acc c. 16 * acc + the (hex_val c)) 0 s"
proof (induction s arbitrary: a)
  case Nil
  then show ?case by simp
next
  case (Cons c s)
  let ?f = "\<lambda>acc c. 16 * acc + the (hex_val c)"
  have "foldl ?f a (c # s) = foldl ?f (16 * a + the (hex_val c)) s" by simp
  also have "\<dots> = (16 * a + the (hex_val c)) * 16 ^ length s + foldl ?f 0 s"
    by (rule Cons.IH)
  also have "\<dots> = a * 16 ^ length (c # s) + (the (hex_val c) * 16 ^ length s + foldl ?f 0 s)"
    by (simp add: algebra_simps)
  also have "the (hex_val c) * 16 ^ length s + foldl ?f 0 s = foldl ?f (the (hex_val c)) s"
    by (rule Cons.IH [symmetric])
  also have "foldl ?f (the (hex_val c)) s = foldl ?f 0 (c # s)" by simp
  finally show ?case .
qed

lemma hex_value_Cons: "hex_value (c # s) = the (hex_val c) * 16 ^ length s + hex_value s"
  using foldl_hex_acc [of "the (hex_val c)" s] by (simp add: hex_value_def)

lemma hex_value_parity: "s \<noteq> [] \<Longrightarrow> even (hex_value s) = even (the (hex_val (last s)))"
proof (induction s rule: rev_induct)
  case Nil
  then show ?case by simp
next
  case (snoc c s)
  show ?case by (simp add: hex_value_snoc)
qed

lemma n_hex_last: "last n_hex = CHR ''F''"
proof -
  have "n_hex \<noteq> []" using n_hex_length by auto
  then have "last n_hex = n_hex ! 767" by (simp add: last_conv_nth n_hex_length)
  also have "\<dots> = CHR ''F''" by (simp add: n_hex_def)
  finally show ?thesis .
qed

lemma big_n_odd: "odd (hex_value n_hex)"
proof -
  have "n_hex \<noteq> []" using n_hex_length by auto
  from hex_value_parity [OF this] show ?thesis by (simp add: n_hex_last hex_val_def)
qed

lemma big_n_large: "15 * 16 ^ 767 \<le> hex_value n_hex"
proof -
  have "n_hex = CHR ''F'' # tl n_hex" by (simp add: n_hex_def)
  then have "hex_value n_hex = hex_value (CHR ''F'' # tl n_hex)" by simp
  also have "\<dots> = 15 * 16 ^ length (tl n_hex) + hex_value (tl n_hex)"
    by (simp only: hex_value_Cons) (simp add: hex_val_def)
  also have "length (tl n_hex) = 767" by (simp add: n_hex_length)
  finally show ?thesis by simp
qed

lemma big_n_gt_1: "1 < hex_value n_hex"
proof -
  have "(1::nat) < 15 * 16 ^ 767" by simp
  with big_n_large show ?thesis by linarith
qed

lemma hex_to_long_n_hex: "hex_to_long L n_hex = Inr (int (hex_value n_hex))"
proof -
  have "n_hex \<noteq> []" using n_hex_length by auto
  then show ?thesis by (simp add: hex_to_long_def n_hex_digits)
qed

lemma hex_to_long_g_hex: "hex_to_long L g_hex = Inr 2"
  by (simp add: hex_to_long_def g_hex_def is_hexdigit_def hex_val_def hex_value_def)

lemma power2_mod_odd:
  fixes N :: int
  assumes "odd N" "1 < N"
  shows "2 ^ e mod N \<noteq> 0"
proof
  assume "2 ^ e mod N = 0"
  then have d: "N dvd 2 ^ e" by (simp add: dvd_eq_mod_eq_0)
  from assms(1) have "coprime N 2" by simp
  then have "coprime N (2 ^ e)" by simp
  with d have "is_unit N" by (meson coprime_common_divisor dvd_refl)
  with assms(2) show False by simp
qed

lemma k_hex_ok:
  "hex_hash L (''00'' @ n_hex @ ''0'' @ g_hex)
     = Inr (hash_sha256 L (hex_pairs (''00'' @ n_hex @ ''0'' @ g_hex)))"
  by (simp add: hex_hash_def fromhex_def n_hex_digits n_hex_length g_hex_def is_hexdigit_zero
      is_hexdigit_def [of "CHR ''2''"] hex_val_def [of "CHR ''2''"])

lemma hexlify_nonempty: "bs \<noteq> [] \<Longrightarrow> hexlify bs \<noteq> []"
  using hexlify_length [of bs] by auto

lemma get_random_ok:
  "urandom \<noteq> [] \<Longrightarrow> get_random L urandom = Inr (int (hex_value (hexlify urandom)))"
  by (simp add: get_random_def hex_to_long_def hexlify_nonempty hexlify_digits)

lemma big_n_int_facts:
  "odd (int (hex_value n_hex))" "1 < int (hex_value n_hex)" "int (hex_value n_hex) \<noteq> 0"
  using big_n_odd big_n_gt_1 by simp_all

lemma calculate_a_ok:
  assumes "big_n self = int (hex_value n_hex)" "g self = 2" "0 \<le> small_a_value self"
  shows "calculate_a L self = Inr (2 ^ nat (small_a_value self) mod big_n self)"
    and "2 ^ nat (small_a_value self) mod big_n self \<noteq> 0"
proof -
  have nz: "big_n self \<noteq> 0" using assms(1) big_n_int_facts(3) by simp
  show ne: "2 ^ nat (small_a_value self) mod big_n self \<noteq> 0"
    unfolding assms(1) by (rule power2_mod_odd [OF big_n_int_facts(1,2)])
  have "\<not> small_a_value self < 0" using assms(3) by simp
  then show "calculate_a L self = Inr (2 ^ nat (small_a_value self) mod big_n self)"
    using nz ne by (simp add: calculate_a_def py_pow_def py_mod_def assms(2))
qed

lemma awssrp_init_result:
  assumes "length urandom = 128"
  shows "\<exists>self.
           awssrp_init L un pw pool cid pool_region client_given secret dk dp dgk urandom
             = (if pool_region \<noteq> None \<and> client_given
                then Inl (ValueError ''pool_region and client should not both be specified (region should be passed to the boto3 client instead)'')
                else if client_given then Inr self
                else (case boto3_client L pool_region of
                        Inl msg \<Rightarrow> Inl (BotoCoreError msg)
                      | Inr created \<Rightarrow> Inr self))
           \<and> username self = un \<and> password self = pw \<and> pool_id self = pool
           \<and> client_id self = cid \<and> client_secret self = secret \<and> device_key self = dk
           \<and> device_group_key self = dgk \<and> device_password self = dp
           \<and> big_n self = int (hex_value n_hex) \<and> g self = 2
           \<and> generate_random_small_a L self urandom = Inr (small_a_value self)
           \<and> 0 \<le> small_a_value self \<and> small_a_value self < big_n self
           \<and> calculate_a L self = Inr (large_a_value self)
           \<and> large_a_value self = 2 ^ nat (small_a_value self) mod big_n self
           \<and> large_a_value self mod big_n self \<noteq> 0
           \<and> (\<forall>a. 0 \<le> a \<longrightarrow>
                  calculate_a L (self\<lparr>small_a_value := a\<rparr>) = Inr (2 ^ nat a mod big_n self)
                  \<and> (2 ^ nat a mod big_n self) mod big_n self \<noteq> 0)"
proof -
  define N where "N = int (hex_value n_hex)"
  define kh where "kh = hash_sha256 L (hex_pairs (''00'' @ n_hex @ ''0'' @ g_hex))"
  define kv where "kv = int (hex_value kh)"
  define r where "r = int (hex_value (hexlify urandom))"
  define a where "a = r mod N"
  define self0 where "self0 =
    \<lparr> username = un, password = pw, pool_id = pool, client_id = cid, client_secret = secret,
      device_key = dk, device_group_key = dgk, device_password = dp,
      big_n = N, g = 2, k = kv, small_a_value = 0, large_a_value = 0 \<rparr>"
  define self where "self = self0\<lparr>small_a_value := a, large_a_value := 2 ^ nat a mod N\<rparr>"
  have Npos: "0 < N" "N \<noteq> 0" using big_n_int_facts by (simp_all add: N_def)
  have ur: "urandom \<noteq> []" using assms by auto
  have a0: "0 \<le> a" "a < N" using Npos by (simp_all add: a_def)
  have gr0: "generate_random_small_a L self0 urandom = Inr a"
    by (simp add: generate_random_small_a_def get_random_ok [OF ur] py_mod_def self0_def Npos
        a_def r_def)
  have gr: "generate_random_small_a L self urandom = Inr a"
    by (simp add: generate_random_small_a_def get_random_ok [OF ur] py_mod_def self_def self0_def
        Npos a_def r_def)
  have ca: "calculate_a L (self0\<lparr>small_a_value := b\<rparr>) = Inr (2 ^ nat b mod N)"
           "2 ^ nat b mod N \<noteq> 0" if "0 \<le> b" for b
    using calculate_a_ok(1) [of "self0\<lparr>small_a_value := b\<rparr>" L]
      calculate_a_ok(2) [of "self0\<lparr>small_a_value := b\<rparr>"] that
    by (simp_all add: self0_def N_def)
  have ca': "calculate_a L (self\<lparr>small_a_value := b\<rparr>) = Inr (2 ^ nat b mod N)" if "0 \<le> b" for b
    using calculate_a_ok(1) [of "self\<lparr>small_a_value := b\<rparr>" L] that
    by (simp add: self_def self0_def N_def)
  have cs: "calculate_a L self = Inr (2 ^ nat a mod N)"
    using calculate_a_ok(1) [of self L] a0 by (simp add: self_def self0_def N_def)
  have k1: "hex_hash L (''00'' @ n_hex @ ''0'' @ g_hex) = Inr kh"
    unfolding kh_def by (rule k_hex_ok)
  have k2: "hex_to_long L kh = Inr kv"
    unfolding kh_def kv_def by (rule hex_to_long_hash)
  have n1: "hex_to_long L n_hex = Inr N"
    unfolding N_def by (rule hex_to_long_n_hex)
  have body: "bind (generate_random_small_a L self0 urandom) (\<lambda>a.
                bind (calculate_a L (self0\<lparr>small_a_value := a\<rparr>)) (\<lambda>big_a.
                Inr (self0\<lparr>small_a_value := a, large_a_value := big_a\<rparr>))) = Inr self"
    using gr0 ca(1) [OF a0(1)] by (simp add: self_def)
  have "awssrp_init L un pw pool cid pool_region client_given secret dk dp dgk urandom
             = (if pool_region \<noteq> None \<and> client_given
                then Inl (ValueError ''pool_region and client should not both be specified (region should be passed to the boto3 client instead)'')
                else bind (if client_given then Inr ()
                           else (case boto3_client L pool_region of
                                   Inl msg \<Rightarrow> Inl (BotoCoreError msg)
                                 | Inr created \<Rightarrow> Inr ())) (\<lambda>client'.
                     bind (generate_random_small_a L self0 urandom) (\<lambda>a.
                       bind (calculate_a L (self0\<lparr>small_a_value := a\<rparr>)) (\<lambda>big_a.
                       Inr (self0\<lparr>small_a_value := a, large_a_value := big_a\<rparr>)))))"
    unfolding awssrp_init_def n1 hex_to_long_g_hex k1 k2 bind_Inr Let_def self0_def
    by simp
  then have "awssrp_init L un pw pool cid pool_region client_given secret dk dp dgk urandom
             = (if pool_region \<noteq> None \<and> client_given
                then Inl (ValueError ''pool_region and client should not both be specified (region should be passed to the boto3 client instead)'')
                else bind (if client_given then Inr ()
                           else (case boto3_client L pool_region of
                                   Inl msg \<Rightarrow> Inl (BotoCoreError msg)
                                 | Inr created \<Rightarrow> Inr ())) (\<lambda>client'. Inr self))"
    by (simp only: body)
  then have init: "awssrp_init L un pw pool cid pool_region client_given secret dk dp dgk urandom
             = (if pool_region \<noteq> None \<and> client_given
                then Inl (ValueError ''pool_region and client should not both be specified (region should be passed to the boto3 client instead)'')
                else if client_given then Inr self
                else (case boto3_client L pool_region of
                        Inl msg \<Rightarrow> Inl (BotoCoreError msg)
                      | Inr created \<Rightarrow> Inr self))"
    by (simp add: bind_def split: sum.splits)
  have fields: "big_n self = N" "g self = 2" "small_a_value self = a"
    "large_a_value self = 2 ^ nat a mod N"
    "username self = un" "password self = pw" "pool_id self = pool" "client_id self = cid"
    "client_secret self = secret" "device_key self = dk" "device_group_key self = dgk"
    "device_password self = dp"
    by (simp_all add: self_def self0_def)
  have all: "\<forall>b. 0 \<le> b \<longrightarrow>
                  calculate_a L (self\<lparr>small_a_value := b\<rparr>) = Inr (2 ^ nat b mod big_n self)
                  \<and> (2 ^ nat b mod big_n self) mod big_n self \<noteq> 0"
    using ca' ca(2) by (simp add: fields)
  show ?thesis
    apply (rule exI [of _ self])
    using init gr a0 cs ca(2) [OF a0(1)] all
    by (simp add: fields N_def [symmetric])
qed

section \<open>The responses to a challenge\<close>

lemma bind_eq_Inr: "bind m f = Inr r \<Longrightarrow> \<exists>v. m = Inr v \<and> f v = Inr r"
  by (cases m) (simp_all add: bind_def)

lemma getitem_eq_Inr: "getitem d key = Inr v \<longleftrightarrow> d key = Some v"
  by (simp add: getitem_def split: option.splits)

lemma process_challenge_builds:
  assumes "process_challenge L self now cp = Inr response"
  shows "\<exists>user_id_for_srp secret_block_b64 signature.
           cp ''USER_ID_FOR_SRP'' = Some user_id_for_srp
           \<and> cp ''SECRET_BLOCK'' = Some secret_block_b64
           \<and> response =
               (let r = [''TIMESTAMP'' \<mapsto> strip_day_zero now,
                         ''USERNAME'' \<mapsto> user_id_for_srp,
                         ''PASSWORD_CLAIM_SECRET_BLOCK'' \<mapsto> secret_block_b64,
                         ''PASSWORD_CLAIM_SIGNATURE'' \<mapsto> signature];
                    r = (case client_secret self of
                           None \<Rightarrow> r
                         | Some secret \<Rightarrow>
                             r(''SECRET_HASH'' \<mapsto>
                               get_secret_hash L (username self) (client_id self) secret))
                in case device_key self of None \<Rightarrow> r | Some dk \<Rightarrow> r(''DEVICE_KEY'' \<mapsto> dk))"
proof -
  from assms [unfolded process_challenge_def]
  obtain user_id_for_srp where 1: "cp ''USER_ID_FOR_SRP'' = Some user_id_for_srp"
    and r1: "bind (getitem cp ''SALT'') (\<lambda>salt_hex.
     bind (getitem cp ''SRP_B'') (\<lambda>srp_b_hex.
     bind (getitem cp ''SECRET_BLOCK'') (\<lambda>secret_block_b64.
     let timestamp = strip_day_zero now
     in bind (hex_to_long L srp_b_hex) (\<lambda>server_b_value.
        bind (get_password_authentication_key L self user_id_for_srp (password self)
                server_b_value salt_hex) (\<lambda>hkdf.
        bind (b64decode L secret_block_b64) (\<lambda>secret_block_bytes.
        bind (getindex (split_on CHR ''_'' (pool_id self)) 1) (\<lambda>pool_name.
        let msg = pool_name @ user_id_for_srp @ secret_block_bytes @ timestamp;
            signature_string = b64encode L (hmac_sha256 L hkdf msg);
            response = [''TIMESTAMP'' \<mapsto> timestamp,
                        ''USERNAME'' \<mapsto> user_id_for_srp,
                        ''PASSWORD_CLAIM_SECRET_BLOCK'' \<mapsto> secret_block_b64,
                        ''PASSWORD_CLAIM_SIGNATURE'' \<mapsto> signature_string];
            response = (case client_secret self of
                          None \<Rightarrow> response
                        | Some secret \<Rightarrow>
                            response(''SECRET_HASH'' \<mapsto>
                              get_secret_hash L (username self) (client_id self) secret));
            response = (case device_key self of
                          None \<Rightarrow> response
                        | Some dk \<Rightarrow> response(''DEVICE_KEY'' \<mapsto> dk))
        in Inr response))))))) = Inr response"
    by (auto dest!: bind_eq_Inr simp: getitem_eq_Inr)
  from r1 show ?thesis
    using 1 by (auto dest!: bind_eq_Inr simp: getitem_eq_Inr Let_def)
qed


lemma process_device_challenge_builds:
  assumes "process_device_challenge L self now cp = Inr response"
  shows "\<exists>username' secret_block_b64 signature dgk dk.
           cp ''USERNAME'' = Some username'
           \<and> cp ''SECRET_BLOCK'' = Some secret_block_b64
           \<and> device_group_key self = Some dgk \<and> device_key self = Some dk
           \<and> response =
               (let r = [''TIMESTAMP'' \<mapsto> strip_day_zero now,
                         ''USERNAME'' \<mapsto> username',
                         ''PASSWORD_CLAIM_SECRET_BLOCK'' \<mapsto> secret_block_b64,
                         ''PASSWORD_CLAIM_SIGNATURE'' \<mapsto> signature,
                         ''DEVICE_KEY'' \<mapsto> dk]
                in case client_secret self of
                     None \<Rightarrow> r
                   | Some secret \<Rightarrow>
                       r(''SECRET_HASH'' \<mapsto> get_secret_hash L username' (client_id self) secret))"
  using assms unfolding process_device_challenge_def
  by (auto dest!: bind_eq_Inr simp: getitem_eq_Inr Let_def split: option.splits)

section \<open>The examples evaluated\<close>

lemma replicate_62_zero: "replicate 62 CHR ''0'' = ''00000000000000000000000000000000000000000000000000000000000000''"
  by (simp add: eval_nat_numeral)

lemma example_hash:
  "hash_sha256 example_lib buf = ''0000000000000000000000000000000000000000000000000000000000000001''"
  by (simp add: hash_sha256_def example_lib_def hexlify_def hex_digit_def replicate_62_zero)

lemma example_hash_value:
  "hex_to_long example_lib ''0000000000000000000000000000000000000000000000000000000000000001'' = Inr 1"
  by (simp add: hex_to_long_def is_hexdigit_def hex_val_def hex_value_def)

lemma example_hex_hash:
  "list_all is_hexdigit s \<Longrightarrow> even (length s) \<Longrightarrow>
   hex_hash example_lib s = Inr ''0000000000000000000000000000000000000000000000000000000000000001''"
  by (simp add: hex_hash_def fromhex_def example_hash)

lemma example_hash_digits:
  "list_all is_hexdigit ''0000000000000000000000000000000000000000000000000000000000000001''"
  using hash_sha256_digits [of example_lib "[]"] by (simp only: example_hash)

lemma example_calculate_u: "calculate_u example_lib 18 5 = Inr 1"
proof -
  have 1: "pad_hex (PyInt 18) = Inr ''12''" "pad_hex (PyInt 5) = Inr ''05''"
    by (simp_all add: pad_hex_def long_to_hex_def to_hex.simps hex_digit_def)
  have 2: "hex_hash example_lib (''12'' @ ''05'') = Inr ''0000000000000000000000000000000000000000000000000000000000000001''"
    by (rule example_hex_hash) (simp_all add: is_hexdigit_def hex_val_def)
  show ?thesis
    unfolding calculate_u_def 1 bind_Inr 2 by (rule example_hash_value)
qed

lemma example_srp_key:
  assumes "big_n self = 23" "g self = 2" "k self = 3" "small_a_value self = 6"
  shows "\<exists>key. srp_key example_lib self 1 5 ''ab'' ''0000000000000000000000000000000000000000000000000000000000000001'' = Inr key"
proof -
  have 1: "pad_hex (PyStr ''ab'') = Inr ''00ab''"
    by (simp add: pad_hex_def)
  have 2: "hex_hash example_lib (''00ab'' @ ''0000000000000000000000000000000000000000000000000000000000000001'') = Inr ''0000000000000000000000000000000000000000000000000000000000000001''"
    by (rule example_hex_hash)
       (simp_all only: list_all_append example_hash_digits, simp_all add: is_hexdigit_def hex_val_def)
  have 3: "srp_s_value example_lib self 5 1 1 = Inr 22"
    by (simp add: srp_s_value_def py_pow_def assms)
  have 4: "pad_hex (PyInt 22) = Inr ''16''"
    by (simp add: pad_hex_def long_to_hex_def to_hex.simps hex_digit_def)
  have 5: "fromhex example_lib ''16'' = Inr [char_of (22::nat)]"
    by (simp add: fromhex_def is_hexdigit_def hex_val_def)
  have 6: "pad_hex (PyStr (long_to_hex 1)) = Inr ''01''"
    by (simp add: pad_hex_def long_to_hex_def to_hex.simps hex_digit_def)
  have 7: "fromhex example_lib ''01'' = Inr [char_of (1::nat)]"
    by (simp add: fromhex_def is_hexdigit_def hex_val_def)
  show ?thesis
    unfolding srp_key_def 1 bind_Inr 2 example_hash_value 3 4 5 6 7 by blast
qed

lemma example_password_key:
  assumes "big_n self = 23" "g self = 2" "k self = 3" "small_a_value self = 6"
    "large_a_value self = 18" "pool_id self = ''eu-west-1_Pool''"
  shows "\<exists>key. get_password_authentication_key example_lib self u p 5 ''ab'' = Inr key"
proof -
  have 1: "username_password self u p = Inr (''Pool'' @ u @ '':'' @ p)"
    by (simp add: username_password_def assms(6) getindex_def)
  from example_srp_key [OF assms(1-4)] obtain key where
    "srp_key example_lib self 1 5 ''ab'' ''0000000000000000000000000000000000000000000000000000000000000001'' = Inr key" by blast
  then show ?thesis
    unfolding get_password_authentication_key_def assms(5) example_calculate_u bind_Inr 1
    by (simp add: example_hash)
qed

lemma example_device_key:
  assumes "big_n self = 23" "g self = 2" "k self = 3" "small_a_value self = 6"
    "large_a_value self = 18"
  shows "\<exists>key. get_device_authentication_key example_lib self dgk dk dp 5 ''ab'' = Inr key"
proof -
  from example_srp_key [OF assms(1-4)] obtain key where
    "srp_key example_lib self 1 5 ''ab'' ''0000000000000000000000000000000000000000000000000000000000000001'' = Inr key" by blast
  then show ?thesis
    unfolding get_device_authentication_key_def assms(5) example_calculate_u bind_Inr
    by (simp add: example_hash)
qed

lemma example_process_challenge:
  assumes "big_n self = 23" "g self = 2" "k self = 3" "small_a_value self = 6"
    "large_a_value self = 18" "pool_id self = ''eu-west-1_Pool''"
  shows "\<exists>r. process_challenge example_lib self now example_challenge = Inr r"
proof -
  have 1: "getitem example_challenge ''USER_ID_FOR_SRP'' = Inr ''u-123''"
    "getitem example_challenge ''SALT'' = Inr ''ab''"
    "getitem example_challenge ''SRP_B'' = Inr ''5''"
    "getitem example_challenge ''SECRET_BLOCK'' = Inr ''blk''"
    by (simp_all add: getitem_def example_challenge_def)
  have 2: "hex_to_long example_lib ''5'' = Inr 5"
    by (simp add: hex_to_long_def is_hexdigit_def hex_val_def hex_value_def)
  have 3: "b64decode example_lib ''blk'' = Inr ''blk''" by (simp add: example_lib_def)
  have 4: "getindex (split_on CHR ''_'' (pool_id self)) 1 = Inr ''Pool''"
    by (simp add: assms(6) getindex_def)
  from example_password_key [OF assms] obtain key where
    5: "get_password_authentication_key example_lib self ''u-123'' (password self) 5 ''ab'' = Inr key"
    by blast
  show ?thesis
    unfolding process_challenge_def 1 bind_Inr Let_def 2 3 4 5 by blast
qed

lemma example_process_device_challenge:
  assumes "big_n self = 23" "g self = 2" "k self = 3" "small_a_value self = 6"
    "large_a_value self = 18" "device_group_key self = Some dgk" "device_key self = Some dk"
  shows "\<exists>r. process_device_challenge example_lib self now example_device_challenge = Inr r"
proof -
  have 1: "getitem example_device_challenge ''USERNAME'' = Inr ''u-456''"
    "getitem example_device_challenge ''SALT'' = Inr ''ab''"
    "getitem example_device_challenge ''SRP_B'' = Inr ''5''"
    "getitem example_device_challenge ''SECRET_BLOCK'' = Inr ''blk''"
    by (simp_all add: getitem_def example_device_challenge_def)
  have 2: "hex_to_long example_lib ''5'' = Inr 5"
    by (simp add: hex_to_long_def is_hexdigit_def hex_val_def hex_value_def)
  have 3: "b64decode example_lib ''blk'' = Inr ''blk''" by (simp add: example_lib_def)
  from example_device_key [OF assms(1-5)] obtain key where
    5: "get_device_authentication_key example_lib self (Some dgk) (Some dk)
          (device_password self) 5 ''ab'' = Inr key"
    by blast
  show ?thesis
    unfolding process_device_challenge_def 1 bind_Inr Let_def 2 3 assms(6,7) 5 by simp
qed

section \<open>Properties of the authentication flows\<close>

lemma sbind_Inr [simp]: "sbind (Inr v, s) f = f v s"
  by (simp add: sbind_def)

lemma sbind_Inl [simp]: "sbind (Inl e, s) f = (Inl e, s)"
  by (simp add: sbind_def)

lemma call_Inr: "client E (sent @ [req]) = Inr r \<Longrightarrow> call E req sent = (Inr r, sent @ [req])"
  by (simp add: call_def)

lemma call_Inl:
  "client E (sent @ [req]) = Inl m \<Longrightarrow> call E req sent = (Inl (ClientError m), sent @ [req])"
  by (simp add: call_def)

lemma require_Some [simp]: "require key (Some v) = Inr v"
  by (simp add: require_def)

lemma require_None [simp]: "require key None = Inl (KeyError key)"
  by (simp add: require_def)

lemma challenge_names_distinct:
  "DEVICE_SRP_AUTH \<noteq> NEW_PASSWORD_REQUIRED_CHALLENGE"
  "DEVICE_SRP_AUTH \<noteq> SOFTWARE_TOKEN_MFA_CHALLENGE"
  "NEW_PASSWORD_REQUIRED_CHALLENGE \<noteq> SOFTWARE_TOKEN_MFA_CHALLENGE"
  "PASSWORD_VERIFIER_CHALLENGE \<noteq> SOFTWARE_TOKEN_MFA_CHALLENGE"
  "PASSWORD_VERIFIER_CHALLENGE \<noteq> NEW_PASSWORD_REQUIRED_CHALLENGE"
  by (simp_all add: DEVICE_SRP_AUTH_def NEW_PASSWORD_REQUIRED_CHALLENGE_def
      SOFTWARE_TOKEN_MFA_CHALLENGE_def PASSWORD_VERIFIER_CHALLENGE_def)

text \<open>The first two steps of the three entry points, when both succeed.\<close>

lemma authenticate_user_after_verifier:
  assumes "client E (sent @ [InitiateAuth ''USER_SRP_AUTH'' (get_auth_params L self) (client_id self)])
             = Inr response"
    and "ChallengeName response = Some PASSWORD_VERIFIER_CHALLENGE"
    and "ChallengeParameters response = Some cp"
    and "process_challenge L self
           (utcnow E (sent @ [InitiateAuth ''USER_SRP_AUTH'' (get_auth_params L self) (client_id self)]))
           cp = Inr cr"
    and "client E (sent @ [InitiateAuth ''USER_SRP_AUTH'' (get_auth_params L self) (client_id self),
                           RespondToAuthChallenge (client_id self) PASSWORD_VERIFIER_CHALLENGE cr None])
             = Inr tokens"
  shows "authenticate_user L E self sent =
           (let sent' = sent @ [InitiateAuth ''USER_SRP_AUTH'' (get_auth_params L self) (client_id self),
                                RespondToAuthChallenge (client_id self) PASSWORD_VERIFIER_CHALLENGE cr None]
            in if ChallengeName tokens = Some DEVICE_SRP_AUTH
               then authenticate_device L E self tokens sent'
               else if ChallengeName tokens = Some NEW_PASSWORD_REQUIRED_CHALLENGE
               then (Inl (ForceChangePasswordException ''Change password before authenticating''), sent')
               else if ChallengeName tokens = Some SOFTWARE_TOKEN_MFA_CHALLENGE
               then (Inl (MFATokenRequiredException ''Software MFA Token required to authenticate''), sent')
               else (Inr tokens, sent'))"
proof -
  let ?r0 = "InitiateAuth ''USER_SRP_AUTH'' (get_auth_params L self) (client_id self)"
  let ?r1 = "RespondToAuthChallenge (client_id self) PASSWORD_VERIFIER_CHALLENGE cr None"
  have c0: "call E ?r0 sent = (Inr response, sent @ [?r0])"
    using assms(1) by (rule call_Inr)
  have c1: "call E ?r1 (sent @ [?r0]) = (Inr tokens, sent @ [?r0, ?r1])"
    using call_Inr [of E "sent @ [?r0]" ?r1 tokens] assms(5) by simp
  show ?thesis
    unfolding authenticate_user_def Let_def c0 sbind_Inr assms(2,3) require_Some
    by (simp add: assms(4) c1)
qed

text \<open>The requests of the MFA entry point when the service asks for the token.\<close>

lemma mfa_flow_requests:
  assumes "client E (sent @ [InitiateAuth ''USER_SRP_AUTH'' (get_auth_params L self) (client_id self)])
             = Inr response"
    and "ChallengeName response = Some PASSWORD_VERIFIER_CHALLENGE"
    and "ChallengeParameters response = Some cp"
    and "cp ''USERNAME'' = Some userSub"
    and "process_challenge L self
           (utcnow E (sent @ [InitiateAuth ''USER_SRP_AUTH'' (get_auth_params L self) (client_id self)]))
           cp = Inr cr"
    and "client E (sent @ [InitiateAuth ''USER_SRP_AUTH'' (get_auth_params L self) (client_id self),
                           RespondToAuthChallenge (client_id self) PASSWORD_VERIFIER_CHALLENGE cr None])
             = Inr tokens"
    and "ChallengeName tokens = Some SOFTWARE_TOKEN_MFA_CHALLENGE"
    and "Session tokens = Some session"
  shows "authenticate_user_with_mfa_token L E self mfaToken sent =
           call E (RespondToAuthChallenge (client_id self) ''SOFTWARE_TOKEN_MFA''
                     [''USERNAME'' \<mapsto> userSub, ''SOFTWARE_TOKEN_MFA_CODE'' \<mapsto> mfaToken]
                     (Some session))
             (sent @ [InitiateAuth ''USER_SRP_AUTH'' (get_auth_params L self) (client_id self),
                      RespondToAuthChallenge (client_id self) PASSWORD_VERIFIER_CHALLENGE cr None])
         \<and> snd (authenticate_user_with_mfa_token L E self mfaToken sent) =
             sent @ [InitiateAuth ''USER_SRP_AUTH'' (get_auth_params L self) (client_id self),
                     RespondToAuthChallenge (client_id self) PASSWORD_VERIFIER_CHALLENGE cr None,
                     RespondToAuthChallenge (client_id self) ''SOFTWARE_TOKEN_MFA''
                       [''USERNAME'' \<mapsto> userSub, ''SOFTWARE_TOKEN_MFA_CODE'' \<mapsto> mfaToken]
                       (Some session)]"
proof -
  let ?r0 = "InitiateAuth ''USER_SRP_AUTH'' (get_auth_params L self) (client_id self)"
  let ?r1 = "RespondToAuthChallenge (client_id self) PASSWORD_VERIFIER_CHALLENGE cr None"
  let ?r2 = "RespondToAuthChallenge (client_id self) ''SOFTWARE_TOKEN_MFA''
               [''USERNAME'' \<mapsto> userSub, ''SOFTWARE_TOKEN_MFA_CODE'' \<mapsto> mfaToken] (Some session)"
  have c0: "call E ?r0 sent = (Inr response, sent @ [?r0])"
    using assms(1) by (rule call_Inr)
  have c1: "call E ?r1 (sent @ [?r0]) = (Inr tokens, sent @ [?r0, ?r1])"
    using call_Inr [of E "sent @ [?r0]" ?r1 tokens] assms(6) by simp
  have gi: "getitem cp ''USERNAME'' = Inr userSub"
    by (simp add: getitem_def assms(4))
  have eq: "authenticate_user_with_mfa_token L E self mfaToken sent = call E ?r2 (sent @ [?r0, ?r1])"
    unfolding authenticate_user_with_mfa_token_def Let_def c0 sbind_Inr assms(2,3) require_Some gi
    by (simp add: assms(5,7,8) c1 SOFTWARE_TOKEN_MFA_CHALLENGE_def)
  have "snd (call E ?r2 (sent @ [?r0, ?r1])) = sent @ [?r0, ?r1, ?r2]"
    by (simp add: call_def split: sum.splits)
  with eq show ?thesis by simp
qed

lemma mfa_flow_missing_username:
  assumes "client E (sent @ [InitiateAuth ''USER_SRP_AUTH'' (get_auth_params L self) (client_id self)])
             = Inr response"
    and "ChallengeParameters response = Some cp"
    and "cp ''USERNAME'' = None"
  shows "authenticate_user_with_mfa_token L E self mfaToken sent =
           (Inl (KeyError ''USERNAME''),
            sent @ [InitiateAuth ''USER_SRP_AUTH'' (get_auth_params L self) (client_id self)])"
proof -
  let ?r0 = "InitiateAuth ''USER_SRP_AUTH'' (get_auth_params L self) (client_id self)"
  have c0: "call E ?r0 sent = (Inr response, sent @ [?r0])"
    using assms(1) by (rule call_Inr)
  have gi: "getitem cp ''USERNAME'' = Inl (KeyError ''USERNAME'')"
    by (simp add: getitem_def assms(3))
  show ?thesis
    unfolding authenticate_user_with_mfa_token_def Let_def c0 sbind_Inr assms(2) require_Some gi
    by simp
qed

lemma process_challenge_ignores_username:
  "process_challenge L self now (cp(''USERNAME'' := v)) = process_challenge L self now cp"
  by (simp add: process_challenge_def getitem_def)

section \<open>Properties of the device enrolment\<close>

lemma fromhex_ok:
  "list_all is_hexdigit s \<Longrightarrow> even (length s) \<Longrightarrow> fromhex L s = Inr (hex_pairs s)"
  by (simp add: fromhex_def)

lemma hex_hash_ok:
  "list_all is_hexdigit s \<Longrightarrow> even (length s) \<Longrightarrow>
   hex_hash L s = Inr (hash_sha256 L (hex_pairs s))"
  by (simp add: hex_hash_def fromhex_ok)

lemma pad_hex_int_ok:
  assumes "0 \<le> x"
  shows "\<exists>r. pad_hex (PyInt x) = Inr r \<and> even (length r) \<and> list_all is_hexdigit r"
proof -
  from assms have x: "x = int (nat x)" by simp
  show ?thesis
    using pad_hex_nat(1) [of "nat x"] pad_hex_nat(2) [of "nat x"] pad_hex_nat(3) [of "nat x"]
    by (subst x) (metis x)
qed

lemma generate_hash_device_ok:
  assumes "urandom16 \<noteq> []"
  shows "\<exists>config. generate_hash_device L urandom40 urandom16 dgk dk
                    = Inr (b64encode L urandom40, config)"
proof -
  define pw where "pw = b64encode L urandom40"
  define h where "h = hash_sha256 L (str_of dgk @ str_of dk @ '':'' @ pw)"
  have 1: "get_random L urandom16 = Inr (int (hex_value (hexlify urandom16)))"
    using assms by (rule get_random_ok)
  obtain salt where 2: "pad_hex (PyInt (int (hex_value (hexlify urandom16)))) = Inr salt"
    and salt: "even (length salt)" "list_all is_hexdigit salt"
    using pad_hex_int_ok [of "int (hex_value (hexlify urandom16))"] by auto
  have 3: "hex_hash L (salt @ h) = Inr (hash_sha256 L (hex_pairs (salt @ h)))"
    by (rule hex_hash_ok) (simp_all add: salt h_def hash_sha256_digits hash_sha256_even)
  define x where "x = int (hex_value (hash_sha256 L (hex_pairs (salt @ h))))"
  have 4: "hex_to_long L (hash_sha256 L (hex_pairs (salt @ h))) = Inr x"
    unfolding x_def by (rule hex_to_long_hash)
  define N where "N = int (hex_value n_hex)"
  have n: "hex_to_long L n_hex = Inr N" unfolding N_def by (rule hex_to_long_n_hex)
  have Npos: "0 < N" using big_n_int_facts(2) by (simp add: N_def)
  have 5: "py_pow L 2 x N = Inr (2 ^ nat x mod N)"
    using Npos by (simp add: py_pow_def x_def)
  have "0 \<le> 2 ^ nat x mod N" using Npos by simp
  then obtain verifier where 6: "pad_hex (PyInt (2 ^ nat x mod N)) = Inr verifier"
    and v: "even (length verifier)" "list_all is_hexdigit verifier"
    using pad_hex_int_ok [of "2 ^ nat x mod N"] by auto
  have 7: "fromhex L verifier = Inr (hex_pairs verifier)" "fromhex L salt = Inr (hex_pairs salt)"
    using v salt by (simp_all add: fromhex_ok)
  show ?thesis
    unfolding generate_hash_device_def Let_def pw_def [symmetric] h_def [symmetric]
      1 bind_Inr 2 3 4 hex_to_long_g_hex n 5 6 7
    by blast
qed


lemma register_device_refused:
  "\<not> can_register_device (fst w) \<Longrightarrow>
   register_device L E urandom40 urandom16 device_name remember_device w
     = (Inl (ValueError ''Device cannot be registered. This is not enabled in Cognito''), w)"
  by (simp add: register_device_def)

lemma register_device_accepted:
  assumes "can_register_device (fst w)"
    and "generate_hash_device L urandom40 urandom16 (attrs (fst w) ''device_group_key'')
           (attrs (fst w) ''device_key'') = Inr (pw, config)"
  shows "\<exists>sent'.
           snd (register_device L E urandom40 urandom16 device_name remember_device w)
             = (setattr (fst w) ''device_password'' pw, sent')"
    and "(fst (register_device L E urandom40 urandom16 device_name remember_device w) = Inr pw)
         \<or> (\<exists>m. fst (register_device L E urandom40 urandom16 device_name remember_device w)
                  = Inl (ClientError m))"
    and "(\<forall>reqs. \<exists>resp. client E reqs = Inr resp) \<Longrightarrow>
         fst (register_device L E urandom40 urandom16 device_name remember_device w) = Inr pw"
proof -
  obtain self sent where w: "w = (self, sent)" by (cases w)
  let ?r1 = "ConfirmDevice (attrs (setattr self ''device_password'' pw) ''access_token'')
               (attrs (setattr self ''device_password'' pw) ''device_key'') config device_name"
  let ?r2 = "UpdateDeviceStatus (attrs (setattr self ''device_password'' pw) ''access_token'')
               (attrs (setattr self ''device_password'' pw) ''device_key'')
               (if remember_device then ''remembered'' else ''not_remembered'')"
  have eq: "register_device L E urandom40 urandom16 device_name remember_device w =
        sbind (on_client (call E ?r1) (setattr self ''device_password'' pw, sent)) (\<lambda>_ w.
        sbind (on_client (call E (UpdateDeviceStatus (attrs (fst w) ''access_token'')
                                    (attrs (fst w) ''device_key'')
                                    (if remember_device then ''remembered'' else ''not_remembered''))) w)
          (\<lambda>_ w. (Inr pw, w)))"
    using assms by (simp add: register_device_def w assign_def)
  show "\<exists>sent'.
           snd (register_device L E urandom40 urandom16 device_name remember_device w)
             = (setattr (fst w) ''device_password'' pw, sent')"
    unfolding eq
    by (auto simp: w on_client_def call_def sbind_def split: sum.splits prod.splits)
  show "(fst (register_device L E urandom40 urandom16 device_name remember_device w) = Inr pw)
         \<or> (\<exists>m. fst (register_device L E urandom40 urandom16 device_name remember_device w)
                  = Inl (ClientError m))"
    unfolding eq
    by (auto simp: w on_client_def call_def sbind_def split: sum.splits prod.splits)
  assume ok: "\<forall>reqs. \<exists>resp. client E reqs = Inr resp"
  obtain resp1 where r1: "client E (sent @ [?r1]) = Inr resp1" using ok by blast
  obtain resp2 where r2: "client E (sent @ [?r1, ?r2]) = Inr resp2" using ok by blast
  show "fst (register_device L E urandom40 urandom16 device_name remember_device w) = Inr pw"
    unfolding eq using r1 r2
    by (simp add: on_client_def call_def)
qed

section \<open>Properties of the token verification\<close>

lemma get_keys_attrs: "attrs (snd (get_keys J self)) = attrs self"
  by (simp add: get_keys_def Let_def split: sum.splits)

lemma get_key_attrs: "attrs (snd (get_key J kid self)) = attrs self"
proof -
  obtain r self' where g: "get_keys J self = (r, self')" by (cases "get_keys J self")
  then have "attrs self' = attrs self" using get_keys_attrs [of J self] by simp
  then show ?thesis
    by (cases r) (simp_all add: get_key_def g sbind_def split: option.splits)
qed

text \<open>
  \<open>verify_token\<close> stores the token only when the verification has passed: when it raises,
  the attributes are the ones before the call; when it returns, the claims returned are
  those that \<open>jwt.decode\<close> verified and the token is stored under the given name.
\<close>

lemma verify_token_raises:
  assumes "fst (verify_token J token id_name token_use self) = Inl e"
  shows "attrs (snd (verify_token J token id_name token_use self)) = attrs self"
proof (cases "get_unverified_header J token")
  case (Inl a)
  then show ?thesis by (simp add: verify_token_def)
next
  case h: (Inr header)
  show ?thesis
  proof (cases "get_unverified_claims J token")
    case (Inl a)
    then show ?thesis by (simp add: verify_token_def h)
  next
    case c: (Inr claims)
    show ?thesis
    proof (cases "claims ''token_use'' = Some (JStr token_use)")
      case False
      then show ?thesis by (simp add: verify_token_def h c)
    next
      case True
      obtain r self' where g: "get_key J (header ''kid'') self = (r, self')"
        by (cases "get_key J (header ''kid'') self")
      then have a: "attrs self' = attrs self" using get_key_attrs [of J "header ''kid''" self] by simp
      show ?thesis
      proof (cases r)
        case (Inl x)
        then show ?thesis by (simp add: verify_token_def h c True g a)
      next
        case (Inr key)
        then show ?thesis
          using assms a
          by (auto simp: verify_token_def h c True g split: sum.splits error.splits)
      qed
    qed
  qed
qed

lemma verify_token_returns:
  assumes "fst (verify_token J token id_name token_use self) = Inr verified"
  shows "attrs (snd (verify_token J token id_name token_use self)) = (attrs self)(id_name \<mapsto> token)"
    and "\<exists>claims key. get_unverified_claims J token = Inr claims
           \<and> claims ''token_use'' = Some (JStr token_use)
           \<and> decode J token key (claims ''aud'') (claims ''iss'') = Inr verified"
proof -
  from assms obtain header where h: "get_unverified_header J token = Inr header"
    by (cases "get_unverified_header J token") (simp_all add: verify_token_def)
  from assms h obtain claims where c: "get_unverified_claims J token = Inr claims"
    by (cases "get_unverified_claims J token") (simp_all add: verify_token_def)
  from assms h c have t: "claims ''token_use'' = Some (JStr token_use)"
    by (cases "claims ''token_use'' = Some (JStr token_use)") (simp_all add: verify_token_def)
  obtain r self' where g: "get_key J (header ''kid'') self = (r, self')"
    by (cases "get_key J (header ''kid'') self")
  then have a: "attrs self' = attrs self" using get_key_attrs [of J "header ''kid''" self] by simp
  from assms h c t g obtain key where k: "r = Inr key"
    by (cases r) (simp_all add: verify_token_def)
  from assms have d: "decode J token key (claims ''aud'') (claims ''iss'') = Inr verified"
    by (auto simp: verify_token_def h c t g k split: sum.splits error.splits)
  show "attrs (snd (verify_token J token id_name token_use self)) = (attrs self)(id_name \<mapsto> token)"
    by (simp add: verify_token_def h c t g k d setattr_def a)
  from c t d show "\<exists>claims key. get_unverified_claims J token = Inr claims
           \<and> claims ''token_use'' = Some (JStr token_use)
           \<and> decode J token key (claims ''aud'') (claims ''iss'') = Inr verified"
    by blast
qed

lemma verify_token_wrong_use:
  assumes "get_unverified_header J token = Inr header"
    and "get_unverified_claims J token = Inr claims"
    and "claims ''token_use'' \<noteq> Some (JStr token_use)"
  shows "verify_token J token id_name token_use self
           = (Inl (TokenVerificationException ''Your {} token use could not be verified.''), self)"
  using assms by (simp add: verify_token_def)

lemma verify_token_bad_signature:
  assumes "get_unverified_header J token = Inr header"
    and "get_unverified_claims J token = Inr claims"
    and "claims ''token_use'' = Some (JStr token_use)"
    and "get_key J (header ''kid'') self = (Inr key, self')"
    and "decode J token key (claims ''aud'') (claims ''iss'') = Inl (JWTError m)"
  shows "verify_token J token id_name token_use self
           = (Inl (TokenVerificationException ''Your {} token could not be verified.''), self')"
  using assms by (simp add: verify_token_def)

section \<open>When the key derivation returns\<close>

lemma pad_hex_str_ok:
  assumes "s \<noteq> []" "list_all is_hexdigit s"
  shows "\<exists>r. pad_hex (PyStr s) = Inr r \<and> even (length r) \<and> list_all is_hexdigit r"
proof (cases "odd (length s)")
  case True
  then have "length s mod 2 = 1" by (simp add: odd_iff_mod_2_eq_one)
  then have "pad_hex (PyStr s) = Inr (CHR ''0'' # s)" by (simp add: pad_hex_def)
  then show ?thesis using True assms(2) by (simp add: is_hexdigit_zero)
next
  case False
  then have m: "length s mod 2 \<noteq> 1" by (simp add: odd_iff_mod_2_eq_one)
  from assms(1) obtain c t where s: "s = c # t" by (cases s) auto
  show ?thesis
  proof (cases "c \<in> set ''89ABCDEFabcdef''")
    case True
    then have "pad_hex (PyStr s) = Inr (''00'' @ s)" using m s by (simp add: pad_hex_def)
    then show ?thesis using False assms(2) by (simp add: is_hexdigit_zero)
  next
    case n: False
    then have "pad_hex (PyStr s) = Inr s" using m s by (simp add: pad_hex_def)
    then show ?thesis using False assms(2) by simp
  qed
qed

lemma srp_key_ok:
  assumes "0 < big_n self" "0 \<le> small_a_value self" "0 \<le> u"
    and "salt \<noteq> []" "list_all is_hexdigit salt" "list_all is_hexdigit h" "even (length h)"
  shows "\<exists>key. srp_key L self u B salt h = Inr key"
proof -
  obtain ps where 1: "pad_hex (PyStr salt) = Inr ps" and ps: "even (length ps)" "list_all is_hexdigit ps"
    using pad_hex_str_ok [OF assms(4,5)] by blast
  have 2: "hex_hash L (ps @ h) = Inr (hash_sha256 L (hex_pairs (ps @ h)))"
    by (rule hex_hash_ok) (simp_all add: ps assms)
  define x where "x = int (hex_value (hash_sha256 L (hex_pairs (ps @ h))))"
  have 3: "hex_to_long L (hash_sha256 L (hex_pairs (ps @ h))) = Inr x"
    unfolding x_def by (rule hex_to_long_hash)
  define S where "S = (B - k self * (g self ^ nat x mod big_n self))
                        ^ nat (small_a_value self + u * x) mod big_n self"
  have 4: "srp_s_value L self B u x = Inr S"
    unfolding S_def using assms(1,2,3) by (intro srp_s_value_eq) (simp_all add: x_def)
  have "0 \<le> S" using assms(1) by (simp add: S_def)
  then obtain pS where 5: "pad_hex (PyInt S) = Inr pS" and pS: "even (length pS)" "list_all is_hexdigit pS"
    using pad_hex_int_ok by blast
  have 6: "fromhex L pS = Inr (hex_pairs pS)" using pS by (simp add: fromhex_ok)
  have "long_to_hex u = to_hex (nat u)" using assms(3) by (simp add: long_to_hex_def)
  then have "long_to_hex u \<noteq> []" "list_all is_hexdigit (long_to_hex u)"
    by (simp_all add: to_hex_nonempty to_hex_digits)
  then obtain pu where 7: "pad_hex (PyStr (long_to_hex u)) = Inr pu"
    and pu: "even (length pu)" "list_all is_hexdigit pu"
    using pad_hex_str_ok by blast
  have 8: "fromhex L pu = Inr (hex_pairs pu)" using pu by (simp add: fromhex_ok)
  show ?thesis
    unfolding srp_key_def 1 bind_Inr 2 3 4 5 6 7 8 by blast
qed

lemma example_calculate_u_any:
  assumes "0 \<le> a" "0 \<le> b"
  shows "calculate_u example_lib a b = Inr 1"
proof -
  obtain pa where 1: "pad_hex (PyInt a) = Inr pa" and pa: "even (length pa)" "list_all is_hexdigit pa"
    using pad_hex_int_ok [OF assms(1)] by blast
  obtain pb where 2: "pad_hex (PyInt b) = Inr pb" and pb: "even (length pb)" "list_all is_hexdigit pb"
    using pad_hex_int_ok [OF assms(2)] by blast
  have 3: "hex_hash example_lib (pa @ pb) = Inr ''0000000000000000000000000000000000000000000000000000000000000001''"
    by (rule example_hex_hash) (simp_all add: pa pb)
  show ?thesis
    unfolding calculate_u_def 1 2 bind_Inr 3 by (rule example_hash_value)
qed

lemma example_process_challenge_any:
  assumes "0 < big_n self" "0 \<le> small_a_value self" "0 \<le> large_a_value self"
    and "CHR ''_'' \<in> set (pool_id self)"
  shows "\<exists>r. process_challenge example_lib self now example_challenge = Inr r"
proof -
  have 1: "getitem example_challenge ''USER_ID_FOR_SRP'' = Inr ''u-123''"
    "getitem example_challenge ''SALT'' = Inr ''ab''"
    "getitem example_challenge ''SRP_B'' = Inr ''5''"
    "getitem example_challenge ''SECRET_BLOCK'' = Inr ''blk''"
    by (simp_all add: getitem_def example_challenge_def)
  have 2: "hex_to_long example_lib ''5'' = Inr 5"
    by (simp add: hex_to_long_def is_hexdigit_def hex_val_def hex_value_def)
  have 3: "b64decode example_lib ''blk'' = Inr ''blk''" by (simp add: example_lib_def)
  from split_shape [OF assms(4)] obtain pre seg rest where
    sh: "pool_id self = pre @ CHR ''_'' # seg @ rest" "CHR ''_'' \<notin> set pre"
        "CHR ''_'' \<notin> set seg" "rest = [] \<or> hd rest = CHR ''_''"
    by blast
  have 4: "getindex (split_on CHR ''_'' (pool_id self)) 1 = Inr seg"
    unfolding sh(1) by (rule split_on_second [OF sh(2,3,4)])
  have up: "username_password self ''u-123'' (password self)
              = Inr (seg @ ''u-123'' @ '':'' @ password self)"
    unfolding username_password_def 4 bind_Inr by simp
  have u: "calculate_u example_lib (large_a_value self) 5 = Inr 1"
    by (rule example_calculate_u_any) (simp_all add: assms)
  have "\<exists>key. srp_key example_lib self 1 5 ''ab''
                (hash_sha256 example_lib (seg @ ''u-123'' @ '':'' @ password self)) = Inr key"
    by (rule srp_key_ok)
       (simp_all add: assms hash_sha256_digits hash_sha256_even is_hexdigit_def hex_val_def)
  then obtain key where
    "srp_key example_lib self 1 5 ''ab''
       (hash_sha256 example_lib (seg @ ''u-123'' @ '':'' @ password self)) = Inr key"
    by blast
  then have 5: "get_password_authentication_key example_lib self ''u-123'' (password self) 5 ''ab''
                  = Inr key"
    unfolding get_password_authentication_key_def u bind_Inr up by (simp add: Let_def)
  show ?thesis
    unfolding process_challenge_def 1 bind_Inr Let_def 2 3 4 5 by blast
qed

section \<open>The session examples evaluated\<close>

lemma example_new_awssrp:
  "\<exists>aws. new_awssrp example_lib example_cognito pw dk dgk dp example_urandom = Inr aws
         \<and> client_id aws = ''abc'' \<and> username aws = ''alice''
         \<and> 0 < big_n aws \<and> 0 \<le> small_a_value aws \<and> 0 \<le> large_a_value aws
         \<and> CHR ''_'' \<in> set (pool_id aws)"
proof -
  have l: "length example_urandom = 128" by (simp add: example_urandom_def)
  from awssrp_init_result [OF l, of example_lib "''alice''" pw "''eu-west-1_Pool''" "''abc''"
      None True None dk dp dgk]
  obtain aws where
    i: "awssrp_init example_lib ''alice'' pw ''eu-west-1_Pool'' ''abc'' None True None dk dp dgk
          example_urandom = Inr aws"
    and f: "username aws = ''alice''" "pool_id aws = ''eu-west-1_Pool''" "client_id aws = ''abc''"
      "big_n aws = int (hex_value n_hex)" "0 \<le> small_a_value aws"
      "large_a_value aws = 2 ^ nat (small_a_value aws) mod big_n aws"
    by auto
  have N: "0 < big_n aws" using big_n_int_facts(2) f(4) by simp
  then have A: "0 \<le> large_a_value aws" by (simp add: f(6))
  have "new_awssrp example_lib example_cognito pw dk dgk dp example_urandom = Inr aws"
    by (simp add: new_awssrp_def str_attr_def example_cognito_def i)
  with f N A show ?thesis by auto
qed

lemma example_set_new_password_challenge:
  assumes "0 < big_n aws" "0 \<le> small_a_value aws" "0 \<le> large_a_value aws"
    and "CHR ''_'' \<in> set (pool_id aws)"
  shows "\<exists>sent. set_new_password_challenge example_lib (example_env (Some ''NEW_PASSWORD_REQUIRED''))
                  aws new_password [] = (Inr example_tokens, sent)"
proof -
  from example_process_challenge_any [OF assms] obtain cr where
    cr: "process_challenge example_lib aws example_now example_challenge = Inr cr"
    by blast
  show ?thesis
    by (simp add: set_new_password_challenge_def call_def example_env_def example_client_def
        PASSWORD_VERIFIER_CHALLENGE_def NEW_PASSWORD_REQUIRED_CHALLENGE_def cr)
qed

lemma example_authenticate_user:
  assumes "0 < big_n aws" "0 \<le> small_a_value aws" "0 \<le> large_a_value aws"
    and "CHR ''_'' \<in> set (pool_id aws)"
  shows "\<exists>sent. authenticate_user example_lib (example_env None) aws [] = (Inr example_tokens, sent)"
proof -
  from example_process_challenge_any [OF assms] obtain cr where
    cr: "process_challenge example_lib aws example_now example_challenge = Inr cr"
    by blast
  show ?thesis
    by (simp add: authenticate_user_def call_def example_env_def example_client_def
        PASSWORD_VERIFIER_CHALLENGE_def NEW_PASSWORD_REQUIRED_CHALLENGE_def DEVICE_SRP_AUTH_def
        SOFTWARE_TOKEN_MFA_CHALLENGE_def cr example_tokens_def)
qed

lemma example_verify_forged:
  assumes "attrs self = attrs example_cognito" "pool_jwk self = None"
  shows "fst (verify_token example_jose ''forged-id-token'' ''id_token'' ''id'' self)
           = Inl (TokenVerificationException ''Your {} token could not be verified.'')"
    and "attrs (snd (verify_token example_jose ''forged-id-token'' ''id_token'' ''id'' self)) ''id_token''
           = None"
proof -
  show 1: "fst (verify_token example_jose ''forged-id-token'' ''id_token'' ''id'' self)
           = Inl (TokenVerificationException ''Your {} token could not be verified.'')"
    by (simp add: verify_token_def example_jose_def example_claims_def get_key_def get_keys_def
        assms getindex_def Let_def)
  from verify_token_raises [OF 1]
  show "attrs (snd (verify_token example_jose ''forged-id-token'' ''id_token'' ''id'' self)) ''id_token''
           = None"
    by (simp add: assms example_cognito_def)
qed

section \<open>C1: the padded hexadecimal encoding\<close>

text \<open>
  C1. For every non-negative integer \<open>x\<close>, \<open>pad_hex\<close> returns the lowercase
  hexadecimal digits of \<open>x\<close> without a leading zero (they parse back to \<open>x\<close>), with
  one \<open>0\<close> in front when their number is odd and otherwise with \<open>00\<close> in front when
  the first digit is one of \<open>89ABCDEFabcdef\<close>. The result has even length and decodes
  to bytes of which the first is below 128, so its high bit is zero. The results for
  \<open>0x8A\<close>, \<open>0x7F\<close> and \<open>0xA\<close> are \<open>008a\<close>, \<open>7f\<close> and \<open>0a\<close>.
\<close>

theorem pad_hex_nonneg:
  assumes "0 \<le> x"
  shows "\<exists>r. pad_hex (PyInt x) = Inr r
          \<and> r = (let h = long_to_hex x
                  in if odd (length h) then CHR ''0'' # h
                     else if hd h \<in> set ''89ABCDEFabcdef'' then ''00'' @ h else h)
          \<and> set (long_to_hex x) \<subseteq> set ''0123456789abcdef''
          \<and> hex_to_long L (long_to_hex x) = Inr x
          \<and> (x \<noteq> 0 \<longrightarrow> hd (long_to_hex x) \<noteq> CHR ''0'')
          \<and> even (length r)
          \<and> (\<exists>b bs. fromhex L r = Inr (b # bs) \<and> (of_char b :: nat) < 128)
          \<and> pad_hex (PyInt 0x8A) = Inr ''008a''
          \<and> pad_hex (PyInt 0x7F) = Inr ''7f''
          \<and> pad_hex (PyInt 0xA) = Inr ''0a''"
proof -
  define n where "n = nat x"
  with assms have x: "x = int n" by simp
  have l: "long_to_hex x = to_hex n" by (simp add: long_to_hex_def x)
  define r where "r = (if odd (length (to_hex n)) then CHR ''0'' # to_hex n
       else if hd (to_hex n) \<in> set ''89ABCDEFabcdef'' then ''00'' @ to_hex n else to_hex n)"
  have 1: "pad_hex (PyInt x) = Inr r" unfolding x r_def by (rule pad_hex_nat(1))
  have 2: "even (length r)" unfolding r_def by (rule pad_hex_nat(2))
  have 3: "list_all is_hexdigit r" unfolding r_def by (rule pad_hex_nat(3))
  have 4: "\<exists>b bs. hex_pairs r = b # bs \<and> (of_char b :: nat) < 128"
    unfolding r_def by (rule pad_hex_nat(4))
  have 5: "fromhex L r = Inr (hex_pairs r)" using 2 3 by (simp add: fromhex_def)
  have 6: "x \<noteq> 0 \<longrightarrow> hd (long_to_hex x) \<noteq> CHR ''0''"
  proof
    assume "x \<noteq> 0"
    then have "0 < n" using x by simp
    then obtain d where "0 < d" "d < 16" "hd (to_hex n) = hex_digit d"
      using hd_to_hex by blast
    then show "hd (long_to_hex x) \<noteq> CHR ''0''"
      using hex_digit_lt16 [of d] by (auto simp: l is_hexdigit_zero)
  qed
  have 7: "pad_hex (PyInt 0x8A) = Inr ''008a''"
    by (simp add: pad_hex_def long_to_hex_def to_hex.simps hex_digit_def)
  have 8: "pad_hex (PyInt 0x7F) = Inr ''7f''"
    by (simp add: pad_hex_def long_to_hex_def to_hex.simps hex_digit_def)
  have 9: "pad_hex (PyInt 0xA) = Inr ''0a''"
    by (simp add: pad_hex_def long_to_hex_def to_hex.simps hex_digit_def)
  have 10: "r = (let h = long_to_hex x
                  in if odd (length h) then CHR ''0'' # h
                     else if hd h \<in> set ''89ABCDEFabcdef'' then ''00'' @ h else h)"
    by (simp add: l r_def Let_def)
  have 11: "hex_to_long L (long_to_hex x) = Inr x"
    unfolding l by (simp add: hex_to_long_to_hex x)
  have 12: "set (long_to_hex x) \<subseteq> set ''0123456789abcdef''"
    unfolding l by (rule to_hex_lower)
  from 1 10 12 11 6 2 4 5 7 8 9 show ?thesis by (intro exI [of _ r]) simp
qed

theorem pad_hex_nonneg_witness:
  "(0::int) \<le> 0x8A \<and> pad_hex (PyInt 0x8A) = Inr ''008a'' \<and> even (length ''008a'')
   \<and> (\<exists>b bs. fromhex example_lib ''008a'' = Inr (b # bs) \<and> (of_char b :: nat) < 128)"
proof -
  have h: "(0::int) \<le> 0x8A" by simp
  from pad_hex_nonneg [OF h, of example_lib] obtain r where
    r: "pad_hex (PyInt 0x8A) = Inr r" "even (length r)"
       "\<exists>b bs. fromhex example_lib r = Inr (b # bs) \<and> (of_char b :: nat) < 128"
       "pad_hex (PyInt 0x8A) = Inr ''008a''"
    by blast
  from r(1,4) have "r = ''008a''" by simp
  with r h show ?thesis by blast
qed

section \<open>C2: the shared secret\<close>



section \<open>C3: the full password\<close>

text \<open>
  C3, amended. For every pool id that contains an underscore, the full password that
  \<open>get_password_authentication_key\<close> hashes is the segment of the pool id between its
  first underscore and its second underscore, or the end of the pool id when there is no
  second one, followed by the user name, a colon and the password. For a pool id with
  exactly one underscore that segment is the substring after the first underscore, and
  the string is the specification's full password.
\<close>

theorem full_password_uses_second_segment:
  assumes "CHR ''_'' \<in> set (pool_id self)"
  shows "\<exists>pre seg rest.
           pool_id self = pre @ CHR ''_'' # seg @ rest
           \<and> CHR ''_'' \<notin> set pre \<and> CHR ''_'' \<notin> set seg \<and> (rest = [] \<or> hd rest = CHR ''_'')
           \<and> username_password self u p = Inr (seg @ u @ '':'' @ p)
           \<and> get_password_authentication_key L self u p B salt =
               bind (calculate_u L (large_a_value self) B) (\<lambda>u_value.
                 if u_value = 0 then Inl (ValueError ''U cannot be zero.'')
                 else srp_key L self u_value B salt (hash_sha256 L (seg @ u @ '':'' @ p)))
           \<and> (rest = [] \<longrightarrow> seg @ u @ '':'' @ p = spec_full_password (pool_id self) u p)"
proof -
  from split_shape [OF assms] obtain pre seg rest where
    sh: "pool_id self = pre @ CHR ''_'' # seg @ rest" "CHR ''_'' \<notin> set pre"
        "CHR ''_'' \<notin> set seg" "rest = [] \<or> hd rest = CHR ''_''"
    by blast
  have up: "username_password self u p = Inr (seg @ u @ '':'' @ p)"
    using split_on_second [OF sh(2,3,4)] by (simp add: username_password_def sh(1))
  have key: "get_password_authentication_key L self u p B salt =
               bind (calculate_u L (large_a_value self) B) (\<lambda>u_value.
                 if u_value = 0 then Inl (ValueError ''U cannot be zero.'')
                 else srp_key L self u_value B salt (hash_sha256 L (seg @ u @ '':'' @ p)))"
    by (simp add: get_password_authentication_key_def up Let_def cong: if_cong)
  have sp: "rest = [] \<longrightarrow> seg @ u @ '':'' @ p = spec_full_password (pool_id self) u p"
    using spec_pool_short_id_shape [OF refl sh(2), of "seg @ rest"]
    by (auto simp: spec_full_password_def sh(1))
  from sh up key sp show ?thesis by blast
qed

theorem full_password_uses_second_segment_witness:
  "CHR ''_'' \<in> set (pool_id example_small_self)
   \<and> username_password example_small_self ''alice'' ''pw'' = Inr ''Poolalice:pw''
   \<and> spec_full_password (pool_id example_small_self) ''alice'' ''pw'' = ''Poolalice:pw''"
proof -
  have h: "CHR ''_'' \<in> set (pool_id example_small_self)"
    by (simp add: example_small_self_def)
  from full_password_uses_second_segment [OF h, of "''alice''" "''pw''" example_lib 5 "''ab''"]
  obtain seg where "username_password example_small_self ''alice'' ''pw'' = Inr (seg @ ''alice:pw'')"
    by auto
  moreover have "username_password example_small_self ''alice'' ''pw'' = Inr ''Poolalice:pw''"
    by (simp add: username_password_def example_small_self_def getindex_def)
  moreover have "spec_full_password (pool_id example_small_self) ''alice'' ''pw'' = ''Poolalice:pw''"
    by (simp add: spec_full_password_def spec_pool_short_id_def example_small_self_def)
  ultimately show ?thesis using h by blast
qed

text \<open>
  C3 as stated fails for a pool id with two underscores: the code hashes the segment
  between them, the specification's full password has everything after the first one.
\<close>

theorem full_password_two_underscores_counterexample:
  "CHR ''_'' \<in> set ''us-east-1_Ab_Cd''
   \<and> username_password (example_small_self\<lparr>pool_id := ''us-east-1_Ab_Cd''\<rparr>) ''alice'' ''pw''
       = Inr ''Abalice:pw''
   \<and> spec_full_password ''us-east-1_Ab_Cd'' ''alice'' ''pw'' = ''Ab_Cdalice:pw''
   \<and> username_password (example_small_self\<lparr>pool_id := ''us-east-1_Ab_Cd''\<rparr>) ''alice'' ''pw''
       \<noteq> Inr (spec_full_password ''us-east-1_Ab_Cd'' ''alice'' ''pw'')"
  by (simp add: username_password_def getindex_def spec_full_password_def spec_pool_short_id_def)

section \<open>C4: the safety check for A\<close>

text \<open>
  C4, amended. For every draw of 128 random bytes the secret \<open>a\<close> that
  \<open>generate_random_small_a\<close> returns satisfies \<open>0 \<le> a < N\<close>, and \<open>calculate_a\<close>
  returns \<open>A = g^a mod N\<close> with \<open>A mod N \<noteq> 0\<close>, as it does for every \<open>a \<ge> 0\<close>: the
  branch that raises \<open>Safety check for A failed\<close> is never taken. The construction of
  the client object returns the object unless the check of its arguments raises (a
  region together with a client) or, when no client is passed, the creation of the
  service client raises; both come before the SRP values are computed.
\<close>

theorem awssrp_init_passes_safety_check:
  assumes "length urandom = 128"
  shows "\<exists>self.
           awssrp_init L un pw pool cid pool_region client_given secret dk dp dgk urandom
             = (if pool_region \<noteq> None \<and> client_given
                then Inl (ValueError ''pool_region and client should not both be specified (region should be passed to the boto3 client instead)'')
                else if client_given then Inr self
                else (case boto3_client L pool_region of
                        Inl msg \<Rightarrow> Inl (BotoCoreError msg)
                      | Inr created \<Rightarrow> Inr self))
           \<and> big_n self = int (hex_value n_hex) \<and> g self = 2
           \<and> generate_random_small_a L self urandom = Inr (small_a_value self)
           \<and> 0 \<le> small_a_value self \<and> small_a_value self < big_n self
           \<and> calculate_a L self = Inr (large_a_value self)
           \<and> large_a_value self = 2 ^ nat (small_a_value self) mod big_n self
           \<and> large_a_value self mod big_n self \<noteq> 0
           \<and> (\<forall>a. 0 \<le> a \<longrightarrow>
                  calculate_a L (self\<lparr>small_a_value := a\<rparr>) = Inr (2 ^ nat a mod big_n self)
                  \<and> (2 ^ nat a mod big_n self) mod big_n self \<noteq> 0)"
proof -
  from awssrp_init_result [OF assms, of L un pw pool cid pool_region client_given secret dk dp dgk]
  obtain self where
    "awssrp_init L un pw pool cid pool_region client_given secret dk dp dgk urandom
             = (if pool_region \<noteq> None \<and> client_given
                then Inl (ValueError ''pool_region and client should not both be specified (region should be passed to the boto3 client instead)'')
                else if client_given then Inr self
                else (case boto3_client L pool_region of
                        Inl msg \<Rightarrow> Inl (BotoCoreError msg)
                      | Inr created \<Rightarrow> Inr self))"
    "big_n self = int (hex_value n_hex)" "g self = 2"
    "generate_random_small_a L self urandom = Inr (small_a_value self)"
    "0 \<le> small_a_value self" "small_a_value self < big_n self"
    "calculate_a L self = Inr (large_a_value self)"
    "large_a_value self = 2 ^ nat (small_a_value self) mod big_n self"
    "large_a_value self mod big_n self \<noteq> 0"
    "\<forall>a. 0 \<le> a \<longrightarrow>
                  calculate_a L (self\<lparr>small_a_value := a\<rparr>) = Inr (2 ^ nat a mod big_n self)
                  \<and> (2 ^ nat a mod big_n self) mod big_n self \<noteq> 0"
    by blast
  then show ?thesis by blast
qed

theorem awssrp_init_passes_safety_check_witness:
  "length example_urandom = 128
   \<and> (\<exists>self. awssrp_init example_lib ''alice'' ''pw'' ''eu-west-1_Pool'' ''abc'' None True
                  None None None None example_urandom = Inr self
              \<and> g self = 2
              \<and> calculate_a example_lib self = Inr (large_a_value self)
              \<and> large_a_value self mod big_n self \<noteq> 0)"
proof -
  have h: "length example_urandom = 128" by (simp add: example_urandom_def)
  from awssrp_init_passes_safety_check [OF h, of example_lib "''alice''" "''pw''"
      "''eu-west-1_Pool''" "''abc''" None True None None None None]
  obtain self where
    "awssrp_init example_lib ''alice'' ''pw'' ''eu-west-1_Pool'' ''abc'' None True
       None None None None example_urandom = Inr self"
    "g self = 2" "calculate_a example_lib self = Inr (large_a_value self)"
    "large_a_value self mod big_n self \<noteq> 0"
    by auto
  with h show ?thesis by blast
qed

text \<open>
  C4 as stated fails where it says that the initialization always succeeds: the
  constructor raises \<open>ValueError\<close> when it is given a region together with a client, and
  with neither a client nor a configured region the creation of the service client
  raises.
\<close>

theorem awssrp_init_raises_counterexample:
  "awssrp_init example_lib ''alice'' ''pw'' ''eu-west-1_Pool'' ''abc'' (Some ''eu-west-1'') True
     None None None None example_urandom
     = Inl (ValueError ''pool_region and client should not both be specified (region should be passed to the boto3 client instead)'')
   \<and> awssrp_init example_lib ''alice'' ''pw'' ''eu-west-1_Pool'' ''abc'' None False
       None None None None example_urandom
     = Inl (BotoCoreError ''You must specify a region.'')"
  by (simp add: awssrp_init_def example_lib_def)

section \<open>C5: the response to the password challenge\<close>

text \<open>
  C5. Whenever \<open>process_challenge\<close> returns a response, for any challenge parameters,
  the response carries under \<open>USERNAME\<close> the challenge's \<open>USER_ID_FOR_SRP\<close>, whatever
  the user name of the client object is, and under \<open>PASSWORD_CLAIM_SECRET_BLOCK\<close> the
  challenge's \<open>SECRET_BLOCK\<close> unchanged; it has a \<open>SECRET_HASH\<close> entry exactly when a
  client secret is configured and a \<open>DEVICE_KEY\<close> entry exactly when a device key is
  set, and that entry is the device key.
\<close>

theorem process_challenge_response_fields:
  assumes "process_challenge L self now cp = Inr response"
  shows "response ''USERNAME'' = cp ''USER_ID_FOR_SRP'' \<and> cp ''USER_ID_FOR_SRP'' \<noteq> None
         \<and> response ''PASSWORD_CLAIM_SECRET_BLOCK'' = cp ''SECRET_BLOCK''
         \<and> cp ''SECRET_BLOCK'' \<noteq> None
         \<and> (''SECRET_HASH'' \<in> dom response \<longleftrightarrow> client_secret self \<noteq> None)
         \<and> (''DEVICE_KEY'' \<in> dom response \<longleftrightarrow> device_key self \<noteq> None)
         \<and> response ''DEVICE_KEY'' = device_key self"
proof -
  from process_challenge_builds [OF assms] obtain user_id_for_srp secret_block_b64 signature
    where cp: "cp ''USER_ID_FOR_SRP'' = Some user_id_for_srp"
              "cp ''SECRET_BLOCK'' = Some secret_block_b64"
      and r: "response =
               (let r = [''TIMESTAMP'' \<mapsto> strip_day_zero now,
                         ''USERNAME'' \<mapsto> user_id_for_srp,
                         ''PASSWORD_CLAIM_SECRET_BLOCK'' \<mapsto> secret_block_b64,
                         ''PASSWORD_CLAIM_SIGNATURE'' \<mapsto> signature];
                    r = (case client_secret self of
                           None \<Rightarrow> r
                         | Some secret \<Rightarrow>
                             r(''SECRET_HASH'' \<mapsto>
                               get_secret_hash L (username self) (client_id self) secret))
                in case device_key self of None \<Rightarrow> r | Some dk \<Rightarrow> r(''DEVICE_KEY'' \<mapsto> dk))"
    by blast
  show ?thesis
    unfolding r cp by (simp add: Let_def split: option.splits)
qed

theorem process_challenge_response_fields_witness:
  "\<exists>r. process_challenge example_lib example_device_self example_now example_challenge = Inr r
       \<and> username example_device_self = ''alice''
       \<and> r ''USERNAME'' = Some ''u-123''
       \<and> r ''PASSWORD_CLAIM_SECRET_BLOCK'' = Some ''blk''
       \<and> ''SECRET_HASH'' \<in> dom r
       \<and> r ''DEVICE_KEY'' = Some ''dk''"
proof -
  have "\<exists>r. process_challenge example_lib example_device_self example_now example_challenge = Inr r"
    by (rule example_process_challenge) (simp_all add: example_device_self_def example_small_self_def)
  then obtain r where
    r: "process_challenge example_lib example_device_self example_now example_challenge = Inr r"
    by blast
  from process_challenge_response_fields [OF r] show ?thesis
    using r by (simp add: example_challenge_def example_device_self_def example_small_self_def)
qed

section \<open>C6: the password-only entry point\<close>

text \<open>
  C6. In \<open>authenticate_user\<close>, when the response to \<open>initiate_auth\<close> names a challenge
  other than \<open>PASSWORD_VERIFIER\<close>, \<open>NotImplementedError\<close> is raised for that challenge.
  When it names \<open>PASSWORD_VERIFIER\<close> and the response to the challenge has been sent and
  answered: a \<open>SOFTWARE_TOKEN_MFA\<close> challenge raises \<open>MFATokenRequiredException\<close>, a
  \<open>NEW_PASSWORD_REQUIRED\<close> challenge raises \<open>ForceChangePasswordException\<close>, a
  \<open>DEVICE_SRP_AUTH\<close> challenge continues with the device authentication, and in every
  other case, in particular when no challenge is named, the answer is returned.
\<close>

theorem authenticate_user_dispatch:
  assumes "client E (sent @ [InitiateAuth ''USER_SRP_AUTH'' (get_auth_params L self) (client_id self)])
             = Inr response"
    and "ChallengeName response = Some challenge_name"
  shows "(challenge_name \<noteq> PASSWORD_VERIFIER_CHALLENGE \<longrightarrow>
            authenticate_user L E self sent =
              (Inl (NotImplementedError (''The '' @ challenge_name @ '' challenge is not supported'')),
               sent @ [InitiateAuth ''USER_SRP_AUTH'' (get_auth_params L self) (client_id self)]))
         \<and> (challenge_name = PASSWORD_VERIFIER_CHALLENGE
              \<and> ChallengeParameters response = Some cp
              \<and> process_challenge L self
                    (utcnow E (sent @ [InitiateAuth ''USER_SRP_AUTH'' (get_auth_params L self)
                                         (client_id self)])) cp = Inr cr
              \<and> client E (sent @ [InitiateAuth ''USER_SRP_AUTH'' (get_auth_params L self) (client_id self),
                                    RespondToAuthChallenge (client_id self) PASSWORD_VERIFIER_CHALLENGE
                                      cr None]) = Inr tokens
              \<longrightarrow>
              (ChallengeName tokens = Some SOFTWARE_TOKEN_MFA_CHALLENGE \<longrightarrow>
                 fst (authenticate_user L E self sent) =
                   Inl (MFATokenRequiredException ''Software MFA Token required to authenticate''))
              \<and> (ChallengeName tokens = Some NEW_PASSWORD_REQUIRED_CHALLENGE \<longrightarrow>
                   fst (authenticate_user L E self sent) =
                     Inl (ForceChangePasswordException ''Change password before authenticating''))
              \<and> (ChallengeName tokens = Some DEVICE_SRP_AUTH \<longrightarrow>
                   authenticate_user L E self sent =
                     authenticate_device L E self tokens
                       (sent @ [InitiateAuth ''USER_SRP_AUTH'' (get_auth_params L self) (client_id self),
                                RespondToAuthChallenge (client_id self) PASSWORD_VERIFIER_CHALLENGE
                                  cr None]))
              \<and> (ChallengeName tokens \<noteq> Some SOFTWARE_TOKEN_MFA_CHALLENGE
                   \<and> ChallengeName tokens \<noteq> Some NEW_PASSWORD_REQUIRED_CHALLENGE
                   \<and> ChallengeName tokens \<noteq> Some DEVICE_SRP_AUTH \<longrightarrow>
                   fst (authenticate_user L E self sent) = Inr tokens))"
proof (intro conjI impI)
  let ?r0 = "InitiateAuth ''USER_SRP_AUTH'' (get_auth_params L self) (client_id self)"
  have c0: "call E ?r0 sent = (Inr response, sent @ [?r0])"
    using assms(1) by (rule call_Inr)
  assume "challenge_name \<noteq> PASSWORD_VERIFIER_CHALLENGE"
  then show "authenticate_user L E self sent =
              (Inl (NotImplementedError (''The '' @ challenge_name @ '' challenge is not supported'')),
               sent @ [?r0])"
    unfolding authenticate_user_def Let_def c0 sbind_Inr assms(2) require_Some by simp
next
  let ?r0 = "InitiateAuth ''USER_SRP_AUTH'' (get_auth_params L self) (client_id self)"
  let ?r1 = "RespondToAuthChallenge (client_id self) PASSWORD_VERIFIER_CHALLENGE cr None"
  assume a: "challenge_name = PASSWORD_VERIFIER_CHALLENGE
              \<and> ChallengeParameters response = Some cp
              \<and> process_challenge L self (utcnow E (sent @ [?r0])) cp = Inr cr
              \<and> client E (sent @ [?r0, ?r1]) = Inr tokens"
  then have cn: "ChallengeName response = Some PASSWORD_VERIFIER_CHALLENGE"
    using assms(2) by simp
  note eq = authenticate_user_after_verifier [OF assms(1) cn, of cp cr tokens]
  {
    assume "ChallengeName tokens = Some SOFTWARE_TOKEN_MFA_CHALLENGE"
    then show "fst (authenticate_user L E self sent) =
                 Inl (MFATokenRequiredException ''Software MFA Token required to authenticate'')"
      using eq a by (simp add: Let_def challenge_names_distinct challenge_names_distinct [symmetric])
  next
    assume "ChallengeName tokens = Some NEW_PASSWORD_REQUIRED_CHALLENGE"
    then show "fst (authenticate_user L E self sent) =
                 Inl (ForceChangePasswordException ''Change password before authenticating'')"
      using eq a by (simp add: Let_def challenge_names_distinct challenge_names_distinct [symmetric])
  next
    assume "ChallengeName tokens = Some DEVICE_SRP_AUTH"
    then show "authenticate_user L E self sent =
                 authenticate_device L E self tokens (sent @ [?r0, ?r1])"
      using eq a by (simp add: Let_def)
  next
    assume "ChallengeName tokens \<noteq> Some SOFTWARE_TOKEN_MFA_CHALLENGE
             \<and> ChallengeName tokens \<noteq> Some NEW_PASSWORD_REQUIRED_CHALLENGE
             \<and> ChallengeName tokens \<noteq> Some DEVICE_SRP_AUTH"
    then show "fst (authenticate_user L E self sent) = Inr tokens"
      using eq a by (simp add: Let_def)
  }
qed


theorem authenticate_user_dispatch_witness:
  "fst (authenticate_user example_lib (example_env (Some ''SOFTWARE_TOKEN_MFA'')) example_small_self [])
     = Inl (MFATokenRequiredException ''Software MFA Token required to authenticate'')
   \<and> fst (authenticate_user example_lib (example_env (Some ''NEW_PASSWORD_REQUIRED''))
            example_small_self [])
     = Inl (ForceChangePasswordException ''Change password before authenticating'')
   \<and> fst (authenticate_user example_lib (example_env None) example_small_self [])
       = Inr example_tokens
   \<and> fst (authenticate_user example_lib
            \<lparr> client = (\<lambda>sent. Inr \<lparr> ChallengeName = Some ''SMS_MFA'', ChallengeParameters = None,
                                       Session = None, AuthenticationResult = None \<rparr>),
              utcnow = (\<lambda>sent. example_now) \<rparr> example_small_self [])
     = Inl (NotImplementedError ''The SMS_MFA challenge is not supported'')"
proof -
  let ?r0 = "InitiateAuth ''USER_SRP_AUTH'' (get_auth_params example_lib example_small_self)
               (client_id example_small_self)"
  let ?first = "\<lparr> ChallengeName = Some ''PASSWORD_VERIFIER'',
                  ChallengeParameters = Some example_challenge,
                  Session = None, AuthenticationResult = None \<rparr>"
  let ?second = "\<lambda>name. case name of
                  None \<Rightarrow> example_tokens
                | Some n \<Rightarrow> \<lparr> ChallengeName = Some n,
                    ChallengeParameters = Some [''USERNAME'' \<mapsto> ''u-mfa''],
                    Session = Some ''S1'', AuthenticationResult = None \<rparr>"
  have "\<exists>r. process_challenge example_lib example_small_self example_now example_challenge = Inr r"
    by (rule example_process_challenge) (simp_all add: example_small_self_def)
  then obtain cr where
    cr: "process_challenge example_lib example_small_self example_now example_challenge = Inr cr"
    by blast
  have first: "client (example_env name) ([] @ [?r0]) = Inr ?first"
    "ChallengeName ?first = Some ''PASSWORD_VERIFIER''" for name
    by (simp_all add: example_env_def example_client_def)
  have rest: "''PASSWORD_VERIFIER'' = PASSWORD_VERIFIER_CHALLENGE
      \<and> ChallengeParameters ?first = Some example_challenge
      \<and> process_challenge example_lib example_small_self
            (utcnow (example_env name) ([] @ [?r0])) example_challenge = Inr cr
      \<and> client (example_env name)
            ([] @ [?r0, RespondToAuthChallenge (client_id example_small_self)
                          PASSWORD_VERIFIER_CHALLENGE cr None]) = Inr (?second name)" for name
    by (simp add: example_env_def example_client_def cr PASSWORD_VERIFIER_CHALLENGE_def
        split: option.splits)
  note d = authenticate_user_dispatch [OF first, where cp = example_challenge and cr = cr]
  have 1: "fst (authenticate_user example_lib (example_env (Some ''SOFTWARE_TOKEN_MFA''))
                 example_small_self [])
            = Inl (MFATokenRequiredException ''Software MFA Token required to authenticate'')"
    using d [of "Some ''SOFTWARE_TOKEN_MFA''" "?second (Some ''SOFTWARE_TOKEN_MFA'')"]
      rest [of "Some ''SOFTWARE_TOKEN_MFA''"]
    by (simp add: SOFTWARE_TOKEN_MFA_CHALLENGE_def)
  have 2: "fst (authenticate_user example_lib (example_env (Some ''NEW_PASSWORD_REQUIRED''))
                 example_small_self [])
            = Inl (ForceChangePasswordException ''Change password before authenticating'')"
    using d [of "Some ''NEW_PASSWORD_REQUIRED''" "?second (Some ''NEW_PASSWORD_REQUIRED'')"]
      rest [of "Some ''NEW_PASSWORD_REQUIRED''"]
    by (simp add: NEW_PASSWORD_REQUIRED_CHALLENGE_def)
  have 3: "fst (authenticate_user example_lib (example_env None) example_small_self [])
            = Inr example_tokens"
    using d [of None "?second None"] rest [of None]
    by (simp add: example_tokens_def SOFTWARE_TOKEN_MFA_CHALLENGE_def
        NEW_PASSWORD_REQUIRED_CHALLENGE_def DEVICE_SRP_AUTH_def)
  let ?E = "\<lparr> client = (\<lambda>sent. Inr \<lparr> ChallengeName = Some ''SMS_MFA'', ChallengeParameters = None,
                                       Session = None, AuthenticationResult = None \<rparr>),
              utcnow = (\<lambda>sent. example_now) \<rparr>"
  have 4: "fst (authenticate_user example_lib ?E example_small_self [])
            = Inl (NotImplementedError ''The SMS_MFA challenge is not supported'')"
    using authenticate_user_dispatch [where E = ?E and sent = "[]" and L = example_lib
        and self = example_small_self and challenge_name = "''SMS_MFA''"
        and response = "\<lparr> ChallengeName = Some ''SMS_MFA'', ChallengeParameters = None,
                                       Session = None, AuthenticationResult = None \<rparr>"]
    by (simp add: PASSWORD_VERIFIER_CHALLENGE_def)
  from 1 2 3 4 show ?thesis by simp
qed

section \<open>C7: the response to the MFA challenge\<close>

text \<open>
  C7, amended. In \<open>authenticate_user_with_mfa_token\<close>, when the service answers the
  response to the \<open>PASSWORD_VERIFIER\<close> challenge with a \<open>SOFTWARE_TOKEN_MFA\<close> challenge,
  the next request is the response to that challenge: its \<open>USERNAME\<close> is the \<open>USERNAME\<close>
  of the \<open>ChallengeParameters\<close> of the initial challenge (the answer to
  \<open>initiate_auth\<close>), neither the \<open>USERNAME\<close> of the parameters that come with the
  \<open>SOFTWARE_TOKEN_MFA\<close> challenge nor the user name of the client object; its
  \<open>SOFTWARE_TOKEN_MFA_CODE\<close> is the token supplied; and it is sent with the \<open>Session\<close>
  of the answer to the \<open>PASSWORD_VERIFIER\<close> response. The result is the answer to that
  request.
\<close>

theorem mfa_response_username_and_session:
  assumes "client E (sent @ [InitiateAuth ''USER_SRP_AUTH'' (get_auth_params L self) (client_id self)])
             = Inr response"
    and "ChallengeName response = Some PASSWORD_VERIFIER_CHALLENGE"
    and "ChallengeParameters response = Some cp"
    and "cp ''USERNAME'' = Some userSub"
    and "process_challenge L self
           (utcnow E (sent @ [InitiateAuth ''USER_SRP_AUTH'' (get_auth_params L self) (client_id self)]))
           cp = Inr cr"
    and "client E (sent @ [InitiateAuth ''USER_SRP_AUTH'' (get_auth_params L self) (client_id self),
                           RespondToAuthChallenge (client_id self) PASSWORD_VERIFIER_CHALLENGE cr None])
             = Inr tokens"
    and "ChallengeName tokens = Some SOFTWARE_TOKEN_MFA_CHALLENGE"
    and "Session tokens = Some session"
  shows "authenticate_user_with_mfa_token L E self mfaToken sent =
           call E (RespondToAuthChallenge (client_id self) ''SOFTWARE_TOKEN_MFA''
                     [''USERNAME'' \<mapsto> userSub, ''SOFTWARE_TOKEN_MFA_CODE'' \<mapsto> mfaToken]
                     (Some session))
             (sent @ [InitiateAuth ''USER_SRP_AUTH'' (get_auth_params L self) (client_id self),
                      RespondToAuthChallenge (client_id self) PASSWORD_VERIFIER_CHALLENGE cr None])
         \<and> snd (authenticate_user_with_mfa_token L E self mfaToken sent) =
             sent @ [InitiateAuth ''USER_SRP_AUTH'' (get_auth_params L self) (client_id self),
                     RespondToAuthChallenge (client_id self) PASSWORD_VERIFIER_CHALLENGE cr None,
                     RespondToAuthChallenge (client_id self) ''SOFTWARE_TOKEN_MFA''
                       [''USERNAME'' \<mapsto> userSub, ''SOFTWARE_TOKEN_MFA_CODE'' \<mapsto> mfaToken]
                       (Some session)]"
  by (rule mfa_flow_requests [OF assms])

theorem mfa_response_username_and_session_witness:
  "username example_small_self = ''alice''
   \<and> example_challenge ''USERNAME'' = Some ''u-123''
   \<and> last (snd (authenticate_user_with_mfa_token example_lib
                  (example_env (Some ''SOFTWARE_TOKEN_MFA'')) example_small_self ''654321'' []))
       = RespondToAuthChallenge ''abc'' ''SOFTWARE_TOKEN_MFA''
           [''USERNAME'' \<mapsto> ''u-123'', ''SOFTWARE_TOKEN_MFA_CODE'' \<mapsto> ''654321'']
           (Some ''S1'')
   \<and> fst (authenticate_user_with_mfa_token example_lib
            (example_env (Some ''SOFTWARE_TOKEN_MFA'')) example_small_self ''654321'' [])
       = Inr example_tokens"
proof -
  let ?E = "example_env (Some ''SOFTWARE_TOKEN_MFA'')"
  let ?r0 = "InitiateAuth ''USER_SRP_AUTH'' (get_auth_params example_lib example_small_self)
               (client_id example_small_self)"
  let ?first = "\<lparr> ChallengeName = Some ''PASSWORD_VERIFIER'',
                  ChallengeParameters = Some example_challenge,
                  Session = None, AuthenticationResult = None \<rparr>"
  let ?second = "\<lparr> ChallengeName = Some ''SOFTWARE_TOKEN_MFA'',
                  ChallengeParameters = Some [''USERNAME'' \<mapsto> ''u-mfa''],
                  Session = Some ''S1'', AuthenticationResult = None \<rparr>"
  have "\<exists>r. process_challenge example_lib example_small_self example_now example_challenge = Inr r"
    by (rule example_process_challenge) (simp_all add: example_small_self_def)
  then obtain cr where
    cr: "process_challenge example_lib example_small_self example_now example_challenge = Inr cr"
    by blast
  have h1: "client ?E ([] @ [?r0]) = Inr ?first"
    by (simp add: example_env_def example_client_def)
  have h2: "ChallengeName ?first = Some PASSWORD_VERIFIER_CHALLENGE"
    by (simp add: PASSWORD_VERIFIER_CHALLENGE_def)
  have h3: "ChallengeParameters ?first = Some example_challenge" by simp
  have h4: "example_challenge ''USERNAME'' = Some ''u-123''"
    by (simp add: example_challenge_def)
  have h5: "process_challenge example_lib example_small_self (utcnow ?E ([] @ [?r0]))
              example_challenge = Inr cr"
    by (simp add: example_env_def cr)
  have h6: "client ?E ([] @ [?r0, RespondToAuthChallenge (client_id example_small_self)
                                   PASSWORD_VERIFIER_CHALLENGE cr None]) = Inr ?second"
    by (simp add: example_env_def example_client_def)
  have h7: "ChallengeName ?second = Some SOFTWARE_TOKEN_MFA_CHALLENGE"
    by (simp add: SOFTWARE_TOKEN_MFA_CHALLENGE_def)
  have h8: "Session ?second = Some ''S1''" by simp
  note t = mfa_response_username_and_session [OF h1 h2 h3 h4 h5 h6 h7 h8, of "''654321''"]
  have cid: "client_id example_small_self = ''abc''" "username example_small_self = ''alice''"
    by (simp_all add: example_small_self_def)
  from t [THEN conjunct2] have
    "last (snd (authenticate_user_with_mfa_token example_lib ?E example_small_self ''654321'' []))
      = RespondToAuthChallenge ''abc'' ''SOFTWARE_TOKEN_MFA''
           [''USERNAME'' \<mapsto> ''u-123'', ''SOFTWARE_TOKEN_MFA_CODE'' \<mapsto> ''654321''] (Some ''S1'')"
    by (simp add: cid)
  moreover from t [THEN conjunct1] have
    "fst (authenticate_user_with_mfa_token example_lib ?E example_small_self ''654321'' [])
      = Inr example_tokens"
    by (simp add: call_def example_env_def example_client_def)
  ultimately show ?thesis using cid h4 by simp
qed

text \<open>
  C7 as stated fails in the specification's scenario 5, where \<open>ChallengeParameters.USERNAME\<close>
  \<open>u-123\<close> comes with the \<open>SOFTWARE_TOKEN_MFA\<close> challenge: when the initial challenge
  carried another \<open>USERNAME\<close>, the response carries that one and not \<open>u-123\<close>, and when
  the initial challenge carried none, \<open>KeyError\<close> is raised.
\<close>

theorem mfa_response_username_counterexample:
  "last (snd (authenticate_user_with_mfa_token example_lib (scenario5_env (Some ''u-first''))
                example_small_self ''654321'' []))
     = RespondToAuthChallenge ''abc'' ''SOFTWARE_TOKEN_MFA''
         [''USERNAME'' \<mapsto> ''u-first'', ''SOFTWARE_TOKEN_MFA_CODE'' \<mapsto> ''654321'']
         (Some ''S1'')
   \<and> last (snd (authenticate_user_with_mfa_token example_lib (scenario5_env (Some ''u-first''))
                  example_small_self ''654321'' []))
     \<noteq> RespondToAuthChallenge ''abc'' ''SOFTWARE_TOKEN_MFA''
         [''USERNAME'' \<mapsto> ''u-123'', ''SOFTWARE_TOKEN_MFA_CODE'' \<mapsto> ''654321'']
         (Some ''S1'')
   \<and> fst (authenticate_user_with_mfa_token example_lib (scenario5_env None)
            example_small_self ''654321'' [])
     = Inl (KeyError ''USERNAME'')"
proof -
  let ?r0 = "InitiateAuth ''USER_SRP_AUTH'' (get_auth_params example_lib example_small_self)
               (client_id example_small_self)"
  let ?first = "\<lambda>u. \<lparr> ChallengeName = Some ''PASSWORD_VERIFIER'',
                  ChallengeParameters = Some (example_challenge(''USERNAME'' := u)),
                  Session = None, AuthenticationResult = None \<rparr>"
  let ?second = "\<lparr> ChallengeName = Some ''SOFTWARE_TOKEN_MFA'',
                  ChallengeParameters = Some [''USERNAME'' \<mapsto> ''u-123''],
                  Session = Some ''S1'', AuthenticationResult = None \<rparr>"
  let ?E = "scenario5_env (Some ''u-first'')"
  have "\<exists>r. process_challenge example_lib example_small_self example_now example_challenge = Inr r"
    by (rule example_process_challenge) (simp_all add: example_small_self_def)
  then obtain cr where
    cr: "process_challenge example_lib example_small_self example_now
           (example_challenge(''USERNAME'' := Some ''u-first'')) = Inr cr"
    by (auto simp: process_challenge_ignores_username)
  have h1: "client (scenario5_env u) ([] @ [?r0]) = Inr (?first u)" for u
    by (simp add: scenario5_env_def scenario5_client_def)
  have h2: "ChallengeName (?first u) = Some PASSWORD_VERIFIER_CHALLENGE" for u
    by (simp add: PASSWORD_VERIFIER_CHALLENGE_def)
  have h3: "ChallengeParameters (?first u) = Some (example_challenge(''USERNAME'' := u))" for u
    by simp
  have h4: "(example_challenge(''USERNAME'' := Some ''u-first'')) ''USERNAME'' = Some ''u-first''"
    by simp
  have h5: "process_challenge example_lib example_small_self (utcnow ?E ([] @ [?r0]))
              (example_challenge(''USERNAME'' := Some ''u-first'')) = Inr cr"
    by (simp add: scenario5_env_def cr)
  have h6: "client ?E ([] @ [?r0, RespondToAuthChallenge (client_id example_small_self)
                                   PASSWORD_VERIFIER_CHALLENGE cr None]) = Inr ?second"
    by (simp add: scenario5_env_def scenario5_client_def)
  have h7: "ChallengeName ?second = Some SOFTWARE_TOKEN_MFA_CHALLENGE"
    by (simp add: SOFTWARE_TOKEN_MFA_CHALLENGE_def)
  have h8: "Session ?second = Some ''S1''" by simp
  have cid: "client_id example_small_self = ''abc''"
    by (simp add: example_small_self_def)
  from mfa_flow_requests [OF h1 h2 h3 h4 h5 h6 h7 h8, of "''654321''", THEN conjunct2]
  have 1: "last (snd (authenticate_user_with_mfa_token example_lib ?E example_small_self
                        ''654321'' []))
      = RespondToAuthChallenge ''abc'' ''SOFTWARE_TOKEN_MFA''
           [''USERNAME'' \<mapsto> ''u-first'', ''SOFTWARE_TOKEN_MFA_CODE'' \<mapsto> ''654321'']
           (Some ''S1'')"
    by (simp add: cid)
  have "[''USERNAME'' \<mapsto> ''u-first'', ''SOFTWARE_TOKEN_MFA_CODE'' \<mapsto> ''654321'']
          \<noteq> [''USERNAME'' \<mapsto> ''u-123'', ''SOFTWARE_TOKEN_MFA_CODE'' \<mapsto> ''654321'']"
  proof
    assume "[''USERNAME'' \<mapsto> ''u-first'', ''SOFTWARE_TOKEN_MFA_CODE'' \<mapsto> ''654321'']
              = [''USERNAME'' \<mapsto> ''u-123'', ''SOFTWARE_TOKEN_MFA_CODE'' \<mapsto> ''654321'']"
    then have "[''USERNAME'' \<mapsto> ''u-first'', ''SOFTWARE_TOKEN_MFA_CODE'' \<mapsto> ''654321''] ''USERNAME''
              = [''USERNAME'' \<mapsto> ''u-123'', ''SOFTWARE_TOKEN_MFA_CODE'' \<mapsto> ''654321''] ''USERNAME''"
      by (rule arg_cong)
    then show False by simp
  qed
  with 1 have 2: "last (snd (authenticate_user_with_mfa_token example_lib ?E example_small_self
                        ''654321'' []))
      \<noteq> RespondToAuthChallenge ''abc'' ''SOFTWARE_TOKEN_MFA''
           [''USERNAME'' \<mapsto> ''u-123'', ''SOFTWARE_TOKEN_MFA_CODE'' \<mapsto> ''654321'']
           (Some ''S1'')"
    by simp
  have "(example_challenge(''USERNAME'' := None)) ''USERNAME'' = None" by simp
  from mfa_flow_missing_username [OF h1 h3 this, of "''654321''"]
  have 3: "fst (authenticate_user_with_mfa_token example_lib (scenario5_env None)
                  example_small_self ''654321'' []) = Inl (KeyError ''USERNAME'')"
    by simp
  from 1 2 3 show ?thesis by blast
qed

section \<open>C8: tokens are stored after verification\<close>

text \<open>
  C8. \<open>verify_token\<close> stores a token only after its verification has passed (the lemmas
  \<open>verify_token_raises\<close>, \<open>verify_token_returns\<close>, \<open>verify_token_wrong_use\<close> and
  \<open>verify_token_bad_signature\<close> above), and \<open>authenticate\<close> stores the ID token and the
  access token through it. \<open>new_password_challenge\<close> does not: it assigns the tokens of
  the result to the attributes directly. In the example the service issues an ID token
  whose signature does not verify: \<open>verify_token\<close> raises
  \<open>TokenVerificationException\<close> on it and leaves \<open>id_token\<close> unset, \<open>authenticate\<close>
  raises the same exception and leaves \<open>id_token\<close> unset, and \<open>new_password_challenge\<close>
  returns with that token stored in \<open>id_token\<close>.
\<close>

theorem new_password_challenge_stores_unverified_tokens:
  "fst (verify_token example_jose ''forged-id-token'' ''id_token'' ''id'' example_cognito)
     = Inl (TokenVerificationException ''Your {} token could not be verified.'')
   \<and> attrs (snd (verify_token example_jose ''forged-id-token'' ''id_token'' ''id'' example_cognito))
         ''id_token'' = None
   \<and> fst (authenticate example_lib example_jose (example_env None) example_urandom ''pw''
            (example_cognito, []))
       = Inl (TokenVerificationException ''Your {} token could not be verified.'')
   \<and> attrs (fst (snd (authenticate example_lib example_jose (example_env None) example_urandom ''pw''
                        (example_cognito, [])))) ''id_token'' = None
   \<and> fst (new_password_challenge example_lib (example_env (Some ''NEW_PASSWORD_REQUIRED''))
            example_urandom ''pw'' ''new-pw'' (example_cognito, [])) = Inr ()
   \<and> attrs (fst (snd (new_password_challenge example_lib
                        (example_env (Some ''NEW_PASSWORD_REQUIRED''))
                        example_urandom ''pw'' ''new-pw'' (example_cognito, [])))) ''id_token''
       = Some ''forged-id-token''"
proof -
  have v: "fst (verify_token example_jose ''forged-id-token'' ''id_token'' ''id'' example_cognito)
             = Inl (TokenVerificationException ''Your {} token could not be verified.'')"
    "attrs (snd (verify_token example_jose ''forged-id-token'' ''id_token'' ''id'' example_cognito))
       ''id_token'' = None"
    by (rule example_verify_forged; simp add: example_cognito_def)+
  obtain aws where
    aws: "new_awssrp example_lib example_cognito ''pw'' None None None example_urandom = Inr aws"
    and f: "0 < big_n aws" "0 \<le> small_a_value aws" "0 \<le> large_a_value aws"
      "CHR ''_'' \<in> set (pool_id aws)"
    using example_new_awssrp [of "''pw''" None None None] by blast
  from example_set_new_password_challenge [OF f, of "''new-pw''"] obtain sent where
    s: "set_new_password_challenge example_lib (example_env (Some ''NEW_PASSWORD_REQUIRED''))
          aws ''new-pw'' [] = (Inr example_tokens, sent)"
    by blast
  have n: "new_password_challenge example_lib (example_env (Some ''NEW_PASSWORD_REQUIRED''))
             example_urandom ''pw'' ''new-pw'' (example_cognito, [])
           = (Inr (), (setattr (setattr (setattr (setattr example_cognito
                 ''id_token'' ''forged-id-token'') ''refresh_token'' ''refresh-token'')
                 ''access_token'' ''access-token'') ''token_type'' ''Bearer'', sent))"
    by (simp add: new_password_challenge_def aws on_client_def s example_tokens_def assign_def
        save_device_metadata_def)
  obtain aws' where
    aws': "new_awssrp example_lib example_cognito ''pw'' (Some ''dk'') (Some ''dgk'') None
             example_urandom = Inr aws'"
    and f': "0 < big_n aws'" "0 \<le> small_a_value aws'" "0 \<le> large_a_value aws'"
      "CHR ''_'' \<in> set (pool_id aws')"
    using example_new_awssrp [of "''pw''" "Some ''dk''" "Some ''dgk''" None] by blast
  from example_authenticate_user [OF f'] obtain sent' where
    s': "authenticate_user example_lib (example_env None) aws' [] = (Inr example_tokens, sent')"
    by blast
  obtain r self' where vt: "verify_token example_jose ''forged-id-token'' ''id_token'' ''id''
                              example_cognito = (r, self')"
    by (cases "verify_token example_jose ''forged-id-token'' ''id_token'' ''id'' example_cognito")
  with v have r: "r = Inl (TokenVerificationException ''Your {} token could not be verified.'')"
    and a: "attrs self' ''id_token'' = None" by simp_all
  have au: "authenticate example_lib example_jose (example_env None) example_urandom ''pw''
              (example_cognito, [])
            = (Inl (TokenVerificationException ''Your {} token could not be verified.''),
               (self', sent'))"
    by (simp add: authenticate_def example_cognito_def [THEN arg_cong, of attrs] aws' on_client_def
        s' example_tokens_def on_self_def vt r)
  from v n au a show ?thesis by (simp add: setattr_def)
qed

section \<open>C9: the device enrolment gate\<close>

text \<open>
  C9. For every state of the session, \<open>register_device\<close> raises its \<open>ValueError\<close>
  (the device cannot be registered) exactly when \<open>device_group_key\<close> is \<open>None\<close> or
  \<open>device_password\<close> is set. When \<open>device_group_key\<close> is set and \<open>device_password\<close> is
  \<open>None\<close>, the device password and the verifier are generated, \<open>device_password\<close> holds
  the generated password afterwards, the call returns that password when the service
  answers its requests, and a second call on the state that the first one leaves raises
  the \<open>ValueError\<close>.
\<close>

theorem register_device_gate:
  "(fst (register_device L E urandom40 urandom16 device_name remember_device w)
      = Inl (ValueError ''Device cannot be registered. This is not enabled in Cognito'')
    \<longleftrightarrow> attrs (fst w) ''device_group_key'' = None \<or> attrs (fst w) ''device_password'' \<noteq> None)
   \<and> (attrs (fst w) ''device_group_key'' \<noteq> None \<and> attrs (fst w) ''device_password'' = None
        \<and> length urandom16 = 16 \<longrightarrow>
        (\<exists>config. generate_hash_device L urandom40 urandom16 (attrs (fst w) ''device_group_key'')
                     (attrs (fst w) ''device_key'') = Inr (b64encode L urandom40, config))
        \<and> attrs (fst (snd (register_device L E urandom40 urandom16 device_name remember_device w)))
              ''device_password'' = Some (b64encode L urandom40)
        \<and> ((\<forall>reqs. \<exists>resp. client E reqs = Inr resp) \<longrightarrow>
               fst (register_device L E urandom40 urandom16 device_name remember_device w)
                 = Inr (b64encode L urandom40))
        \<and> fst (register_device L E urandom40' urandom16' device_name' remember_device'
                  (snd (register_device L E urandom40 urandom16 device_name remember_device w)))
              = Inl (ValueError ''Device cannot be registered. This is not enabled in Cognito''))"
proof (intro conjI impI)
  let ?gate = "Inl (ValueError ''Device cannot be registered. This is not enabled in Cognito'')"
  show "(fst (register_device L E urandom40 urandom16 device_name remember_device w) = ?gate)
         \<longleftrightarrow> (attrs (fst w) ''device_group_key'' = None \<or> attrs (fst w) ''device_password'' \<noteq> None)"
  proof (cases "can_register_device (fst w)")
    case False
    then show ?thesis
      using register_device_refused [OF False, of L E urandom40 urandom16 device_name remember_device]
      by (auto simp: can_register_device_def)
  next
    case True
    have "fst (register_device L E urandom40 urandom16 device_name remember_device w) \<noteq> ?gate"
    proof (cases "urandom16 = []")
      case e: True
      have "get_random L urandom16 = Inl (ValueError ''invalid literal for int() with base 16'')"
        by (simp add: get_random_def e hexlify_def hex_to_long_def)
      then show ?thesis
        using True by (simp add: register_device_def generate_hash_device_def Let_def)
    next
      case False
      from generate_hash_device_ok [OF False] obtain config where
        "generate_hash_device L urandom40 urandom16 (attrs (fst w) ''device_group_key'')
           (attrs (fst w) ''device_key'') = Inr (b64encode L urandom40, config)"
        by blast
      from register_device_accepted(2) [OF True this, of E device_name remember_device]
      show ?thesis by auto
    qed
    with True show ?thesis by (auto simp: can_register_device_def)
  qed
next
  assume a: "attrs (fst w) ''device_group_key'' \<noteq> None \<and> attrs (fst w) ''device_password'' = None
              \<and> length urandom16 = 16"
  then have can: "can_register_device (fst w)" by (simp add: can_register_device_def)
  from a have ne: "urandom16 \<noteq> []" by auto
  from generate_hash_device_ok [OF ne] obtain config where
    g: "generate_hash_device L urandom40 urandom16 (attrs (fst w) ''device_group_key'')
           (attrs (fst w) ''device_key'') = Inr (b64encode L urandom40, config)"
    by blast
  then show "\<exists>config. generate_hash_device L urandom40 urandom16 (attrs (fst w) ''device_group_key'')
                     (attrs (fst w) ''device_key'') = Inr (b64encode L urandom40, config)"
    by blast
  from register_device_accepted(1) [OF can g] obtain sent' where
    s: "snd (register_device L E urandom40 urandom16 device_name remember_device w)
          = (setattr (fst w) ''device_password'' (b64encode L urandom40), sent')"
    by blast
  show "attrs (fst (snd (register_device L E urandom40 urandom16 device_name remember_device w)))
              ''device_password'' = Some (b64encode L urandom40)"
    by (simp add: s setattr_def)
  show "fst (register_device L E urandom40' urandom16' device_name' remember_device'
                  (snd (register_device L E urandom40 urandom16 device_name remember_device w)))
              = Inl (ValueError ''Device cannot be registered. This is not enabled in Cognito'')"
  proof -
    have "\<not> can_register_device
              (fst (snd (register_device L E urandom40 urandom16 device_name remember_device w)))"
      by (simp add: s can_register_device_def setattr_def)
    from register_device_refused [OF this] show ?thesis by simp
  qed
  {
    assume "\<forall>reqs. \<exists>resp. client E reqs = Inr resp"
    then show "fst (register_device L E urandom40 urandom16 device_name remember_device w)
                 = Inr (b64encode L urandom40)"
      by (rule register_device_accepted(3) [OF can g])
  }
qed

theorem register_device_gate_witness:
  "attrs example_cognito ''device_group_key'' \<noteq> None
   \<and> attrs example_cognito ''device_password'' = None
   \<and> length example_urandom16 = 16
   \<and> fst (register_device example_lib (example_env None) example_urandom40 example_urandom16
            ''laptop'' True (example_cognito, [])) = Inr example_urandom40
   \<and> attrs (fst (snd (register_device example_lib (example_env None) example_urandom40
                        example_urandom16 ''laptop'' True (example_cognito, []))))
         ''device_password'' = Some example_urandom40
   \<and> fst (register_device example_lib (example_env None) example_urandom40 example_urandom16
            ''laptop'' True
            (snd (register_device example_lib (example_env None) example_urandom40
                    example_urandom16 ''laptop'' True (example_cognito, []))))
       = Inl (ValueError ''Device cannot be registered. This is not enabled in Cognito'')
   \<and> fst (register_device example_lib (example_env None) example_urandom40 example_urandom16
            ''laptop'' True (setattr_opt example_cognito ''device_group_key'' None, []))
       = Inl (ValueError ''Device cannot be registered. This is not enabled in Cognito'')"
proof -
  have h: "attrs (fst (example_cognito, [])) ''device_group_key'' \<noteq> None
           \<and> attrs (fst (example_cognito, [])) ''device_password'' = None
           \<and> length example_urandom16 = 16"
    by (simp add: example_cognito_def example_urandom16_def)
  have ok: "\<forall>reqs. \<exists>resp. client (example_env None) reqs = Inr resp"
    by (simp add: example_env_def example_client_def split: list.splits)
  have enc: "b64encode example_lib example_urandom40 = example_urandom40"
    by (simp add: example_lib_def)
  note t = register_device_gate [where L = example_lib and E = "example_env None"
      and ?urandom40.0 = example_urandom40 and ?urandom16.0 = example_urandom16
      and device_name = "''laptop''" and remember_device = True
      and urandom40' = example_urandom40 and urandom16' = example_urandom16
      and device_name' = "''laptop''" and remember_device' = True]
  from t [where w = "(example_cognito, [])"] h ok
  have a: "attrs (fst (snd (register_device example_lib (example_env None) example_urandom40
                        example_urandom16 ''laptop'' True (example_cognito, []))))
         ''device_password'' = Some example_urandom40"
    and b: "fst (register_device example_lib (example_env None) example_urandom40 example_urandom16
            ''laptop'' True (example_cognito, [])) = Inr example_urandom40"
    and c: "fst (register_device example_lib (example_env None) example_urandom40 example_urandom16
            ''laptop'' True
            (snd (register_device example_lib (example_env None) example_urandom40
                    example_urandom16 ''laptop'' True (example_cognito, []))))
       = Inl (ValueError ''Device cannot be registered. This is not enabled in Cognito'')"
    unfolding enc by blast+
  from t [where w = "(setattr_opt example_cognito ''device_group_key'' None, [])"]
  have d: "fst (register_device example_lib (example_env None) example_urandom40 example_urandom16
            ''laptop'' True (setattr_opt example_cognito ''device_group_key'' None, []))
       = Inl (ValueError ''Device cannot be registered. This is not enabled in Cognito'')"
    by (simp add: setattr_opt_def)
  from h a b c d show ?thesis by simp
qed

section \<open>C10: the user name under the secret hash\<close>

text \<open>
  C10. With a client secret configured, the \<open>SECRET_HASH\<close> of the response that
  \<open>process_challenge\<close> builds is computed from the user name given to the constructor,
  while the \<open>USERNAME\<close> of the same response is the challenge's \<open>USER_ID_FOR_SRP\<close>;
  the \<open>SECRET_HASH\<close> of the response that \<open>process_device_challenge\<close> builds is
  computed from the \<open>USERNAME\<close> of the device challenge's parameters.
\<close>

theorem secret_hash_username_source:
  assumes "client_secret self = Some secret"
  shows "(process_challenge L self now cp = Inr r \<longrightarrow>
            r ''SECRET_HASH'' = Some (get_secret_hash L (username self) (client_id self) secret)
            \<and> r ''USERNAME'' = cp ''USER_ID_FOR_SRP'')
         \<and> (process_device_challenge L self now cp' = Inr r' \<longrightarrow>
              (\<exists>u. cp' ''USERNAME'' = Some u \<and> r' ''USERNAME'' = Some u
                   \<and> r' ''SECRET_HASH'' = Some (get_secret_hash L u (client_id self) secret)))"
proof (intro conjI impI)
  assume a: "process_challenge L self now cp = Inr r"
  from process_challenge_builds [OF a]
  show "r ''SECRET_HASH'' = Some (get_secret_hash L (username self) (client_id self) secret)"
    by (auto simp: Let_def assms split: option.splits)
  from process_challenge_builds [OF a]
  show "r ''USERNAME'' = cp ''USER_ID_FOR_SRP''"
    by (auto simp: Let_def assms split: option.splits)
next
  assume a: "process_device_challenge L self now cp' = Inr r'"
  from process_device_challenge_builds [OF a]
  show "\<exists>u. cp' ''USERNAME'' = Some u \<and> r' ''USERNAME'' = Some u
           \<and> r' ''SECRET_HASH'' = Some (get_secret_hash L u (client_id self) secret)"
    by (auto simp: Let_def assms)
qed

theorem secret_hash_username_source_witness:
  "client_secret example_device_self = Some ''s3cret''
   \<and> (\<exists>r. process_challenge example_lib example_device_self example_now example_challenge = Inr r
          \<and> r ''USERNAME'' = Some ''u-123''
          \<and> r ''SECRET_HASH'' = Some ''s3cret|aliceabc'')
   \<and> (\<exists>r'. process_device_challenge example_lib example_device_self example_now
                example_device_challenge = Inr r'
          \<and> r' ''USERNAME'' = Some ''u-456''
          \<and> r' ''SECRET_HASH'' = Some ''s3cret|u-456abc'')"
proof -
  have h: "client_secret example_device_self = Some ''s3cret''"
    by (simp add: example_device_self_def)
  have "\<exists>r. process_challenge example_lib example_device_self example_now example_challenge = Inr r"
    by (rule example_process_challenge) (simp_all add: example_device_self_def example_small_self_def)
  then obtain r where
    r: "process_challenge example_lib example_device_self example_now example_challenge = Inr r"
    by blast
  have "\<exists>r. process_device_challenge example_lib example_device_self example_now
              example_device_challenge = Inr r"
    by (rule example_process_device_challenge [where dgk = "''dgk''" and dk = "''dk''"])
       (simp_all add: example_device_self_def example_small_self_def)
  then obtain r' where
    r': "process_device_challenge example_lib example_device_self example_now
           example_device_challenge = Inr r'"
    by blast
  have sh: "get_secret_hash example_lib u ''abc'' ''s3cret'' = ''s3cret|'' @ u @ ''abc''" for u
    by (simp add: get_secret_hash_def example_lib_def)
  from secret_hash_username_source [OF h, of example_lib example_now example_challenge r
      example_device_challenge r'] r r'
  have "r ''SECRET_HASH'' = Some ''s3cret|aliceabc''" "r ''USERNAME'' = Some ''u-123''"
    "r' ''USERNAME'' = Some ''u-456''" "r' ''SECRET_HASH'' = Some ''s3cret|u-456abc''"
    by (auto simp: sh example_device_self_def example_small_self_def example_challenge_def
        example_device_challenge_def)
  with h r r' show ?thesis by blast
qed

end
